theory Spec2Isabelle
  imports Complex_Main "HOL-Library.Word"
begin

section \<open>Floating-point values\<close>

text \<open>
  \<^verbatim>\<open>float\<close> and \<^verbatim>\<open>double\<close> values of \<^verbatim>\<open>decoder.hpp\<close>: a finite number, one of
  the two infinities, or a NaN. Rounding is not fixed by this development: every
  arithmetic operation takes the rounding function of its format (\<open>rnd\<close>, from the exact
  real result to the stored value, overflow to an infinity included) as a parameter, and
  the theorems hold for every such function. Signed zeros are not distinguished; the only
  zero divisor of the code comes from an unsigned integer and is \<open>+0\<close>.
\<close>

datatype fp = Fin real | PInf | NInf | NaN

type_synonym rounding = "real \<Rightarrow> fp"

text \<open>IEEE comparison \<^verbatim>\<open>a < b\<close>: false whenever an operand is a NaN.\<close>

fun fp_less :: "fp \<Rightarrow> fp \<Rightarrow> bool" where
  "fp_less (Fin x) (Fin y) = (x < y)"
| "fp_less (Fin x) PInf = True"
| "fp_less NInf (Fin y) = True"
| "fp_less NInf PInf = True"
| "fp_less a b = False"

fun fp_neg :: "fp \<Rightarrow> fp" where
  "fp_neg (Fin x) = Fin (- x)"
| "fp_neg PInf = NInf"
| "fp_neg NInf = PInf"
| "fp_neg NaN = NaN"

fun fp_add :: "rounding \<Rightarrow> fp \<Rightarrow> fp \<Rightarrow> fp" where
  "fp_add rnd (Fin x) (Fin y) = rnd (x + y)"
| "fp_add rnd NaN b = NaN"
| "fp_add rnd a NaN = NaN"
| "fp_add rnd PInf NInf = NaN"
| "fp_add rnd NInf PInf = NaN"
| "fp_add rnd PInf b = PInf"
| "fp_add rnd NInf b = NInf"
| "fp_add rnd a PInf = PInf"
| "fp_add rnd a NInf = NInf"

text \<open>The sign of an infinite product or quotient.\<close>

definition inf_of_sign :: "bool \<Rightarrow> fp" where
  "inf_of_sign negative = (if negative then NInf else PInf)"

fun fp_mul :: "rounding \<Rightarrow> fp \<Rightarrow> fp \<Rightarrow> fp" where
  "fp_mul rnd (Fin x) (Fin y) = rnd (x * y)"
| "fp_mul rnd NaN b = NaN"
| "fp_mul rnd a NaN = NaN"
| "fp_mul rnd (Fin x) PInf = (if x = 0 then NaN else inf_of_sign (x < 0))"
| "fp_mul rnd (Fin x) NInf = (if x = 0 then NaN else inf_of_sign (0 < x))"
| "fp_mul rnd PInf (Fin y) = (if y = 0 then NaN else inf_of_sign (y < 0))"
| "fp_mul rnd NInf (Fin y) = (if y = 0 then NaN else inf_of_sign (0 < y))"
| "fp_mul rnd PInf PInf = PInf"
| "fp_mul rnd NInf NInf = PInf"
| "fp_mul rnd PInf NInf = NInf"
| "fp_mul rnd NInf PInf = NInf"

fun fp_div :: "rounding \<Rightarrow> fp \<Rightarrow> fp \<Rightarrow> fp" where
  "fp_div rnd (Fin x) (Fin y) =
     (if y = 0 then (if x = 0 then NaN else inf_of_sign (x < 0)) else rnd (x / y))"
| "fp_div rnd NaN b = NaN"
| "fp_div rnd a NaN = NaN"
| "fp_div rnd (Fin x) PInf = Fin 0"
| "fp_div rnd (Fin x) NInf = Fin 0"
| "fp_div rnd PInf (Fin y) = inf_of_sign (y < 0)"
| "fp_div rnd NInf (Fin y) = inf_of_sign (0 \<le> y)"
| "fp_div rnd PInf PInf = NaN"
| "fp_div rnd PInf NInf = NaN"
| "fp_div rnd NInf PInf = NaN"
| "fp_div rnd NInf NInf = NaN"

text \<open>
  \<^verbatim>\<open>std::max(a, b)\<close> is \<^verbatim>\<open>(a < b) ? b : a\<close> and \<^verbatim>\<open>std::min(a, b)\<close> is
  \<^verbatim>\<open>(b < a) ? b : a\<close>: with a NaN the first argument is returned.
\<close>

definition std_max :: "fp \<Rightarrow> fp \<Rightarrow> fp" where
  "std_max a b = (if fp_less a b then b else a)"

definition std_min :: "fp \<Rightarrow> fp \<Rightarrow> fp" where
  "std_min a b = (if fp_less b a then b else a)"

type_synonym size_t = "64 word"

text \<open>Conversion of a \<^verbatim>\<open>std::size_t\<close> to a floating-point format.\<close>

definition fp_of_size :: "rounding \<Rightarrow> size_t \<Rightarrow> fp" where
  "fp_of_size rnd n = rnd (real (unat n))"

section \<open>Confidence of a hypothesis\<close>

text \<open>
  \<^verbatim>\<open>calculate_confidence\<close> (decoder.hpp:61-63). The two \<^verbatim>\<open>float\<close> scores are promoted
  to \<^verbatim>\<open>double\<close> (exactly); \<^verbatim>\<open>n_words + 1\<close> is computed in \<^verbatim>\<open>std::size_t\<close>, so it
  wraps to 0 at \<^verbatim>\<open>SIZE_MAX\<close>, and is then converted to \<^verbatim>\<open>double\<close>. \<open>rd\<close> rounds to
  \<^verbatim>\<open>double\<close>.
\<close>

definition calculate_confidence :: "rounding \<Rightarrow> fp \<Rightarrow> fp \<Rightarrow> size_t \<Rightarrow> fp" where
  "calculate_confidence rd lm_score am_score n_words =
     std_max (Fin 0) (std_min (Fin 1)
       (fp_add rd
          (fp_div rd
             (fp_mul rd (fp_neg (rd 0.0001466488))
                (fp_add rd (fp_mul rd (rd 2.388449) lm_score) am_score))
             (fp_of_size rd (n_words + 1)))
          (rd 0.956)))"

text \<open>
  The specification's \<open>clamp(lo, hi, x)\<close>: \<open>lo\<close> below \<open>lo\<close>, \<open>hi\<close> above \<open>hi\<close>,
  \<open>x\<close> in between. It says nothing of a NaN, which is passed through here.
\<close>

definition clamp :: "fp \<Rightarrow> fp \<Rightarrow> fp \<Rightarrow> fp" where
  "clamp lo hi x = (if fp_less x lo then lo else if fp_less hi x then hi else x)"

definition in_unit_interval :: "fp \<Rightarrow> bool" where
  "in_unit_interval c = (case c of Fin v \<Rightarrow> 0 \<le> v \<and> v \<le> 1 | _ \<Rightarrow> False)"

text \<open>Arithmetic without rounding, for evaluating the formula on concrete scores.\<close>

definition exact :: rounding where
  "exact = Fin"

section \<open>Results\<close>

text \<open>\<^verbatim>\<open>struct Word\<close>, \<^verbatim>\<open>struct Alternative\<close>, \<^verbatim>\<open>struct DecoderOptions\<close> (decoder.hpp:34-54).\<close>

record Word =
  start_time :: fp
  end_time :: fp
  confidence :: fp
  word :: string

record Alternative =
  transcript :: string
  confidence :: fp
  am_score :: fp
  lm_score :: fp
  words :: "Word list"

record DecoderOptions =
  enable_word_level :: bool

type_synonym utterance_results_t = "Alternative list"

section \<open>Failures\<close>

text \<open>
  What ends a call other than a return: an exception thrown by \<^verbatim>\<open>KALDI_ERR\<close> (with its
  message), a failed \<^verbatim>\<open>KALDI_ASSERT\<close>, a dereferenced \<^verbatim>\<open>NULL\<close> pointer, a
  floating-point value converted to an \<^verbatim>\<open>int32\<close> that cannot hold it, and a loop that
  never ends.
\<close>

datatype failure =
  KaldiError string
| AssertionFailure
| NullPointer
| UndefinedConversion
| NonTermination

section \<open>The engine\<close>

text \<open>
  Kaldi and OpenFst are not part of the repository: the operations the code calls are the
  fields of two records, and every definition below takes them as a parameter. The
  types \<open>'model\<close> (the loaded model files: transition model, network, symbol table,
  decoding graph, feature configuration), \<open>'wb\<close> (word-boundary information),
  \<open>'pipe\<close> (feature pipeline), \<open>'dec\<close> (search state), \<open>'adapt\<close> (speaker-adaptation
  state), \<open>'sw\<close> (silence weighting), \<open>'clat\<close> (compact lattice) and \<open>'lat\<close> (lattice)
  are those of the engine.
\<close>

type_synonym delta_weights_t = "(int \<times> fp) list"

record ('model, 'pipe, 'dec, 'adapt, 'sw, 'clat) stream_ops =
  NewFeaturePipeline :: "'model \<Rightarrow> 'pipe"
  SetAdaptationState :: "'adapt \<Rightarrow> 'pipe \<Rightarrow> 'pipe"
  NewDecoder :: "'model \<Rightarrow> 'pipe \<Rightarrow> 'dec"
  NewAdaptationState :: "'model \<Rightarrow> 'adapt"
  NewSilenceWeighting :: "'model \<Rightarrow> 'sw"
  AcceptWaveform :: "fp \<Rightarrow> fp list \<Rightarrow> 'pipe \<Rightarrow> 'pipe"
  Active :: "'sw \<Rightarrow> bool"
  IvectorFeature :: "'pipe \<Rightarrow> bool"
  ComputeCurrentTraceback :: "'dec \<Rightarrow> 'sw \<Rightarrow> 'sw"
  NumFramesReady :: "'pipe \<Rightarrow> int"
  GetDeltaWeights :: "int \<Rightarrow> delta_weights_t \<Rightarrow> 'sw \<Rightarrow> 'sw \<times> delta_weights_t"
  UpdateFrameWeights :: "delta_weights_t \<Rightarrow> 'pipe \<Rightarrow> 'pipe"
  AdvanceDecoding :: "'pipe \<Rightarrow> 'dec \<Rightarrow> 'dec"
  InputFinished :: "'pipe \<Rightarrow> 'pipe"
  FinalizeDecoding :: "'dec \<Rightarrow> 'dec"
  NumFramesDecoded :: "'dec \<Rightarrow> int"
  GetLattice :: "'dec \<Rightarrow> string + 'clat"

text \<open>
  \<open>IvectorFeature\<close> tells whether the pipeline's i-vector feature is not \<^verbatim>\<open>NULL\<close>;
  \<open>GetLattice\<close> returns the message of the exception it throws, or the lattice. The
  search was constructed over a pointer to the pipeline, so advancing it reads the
  pipeline. The three \<open>GetOneBest\<close> fields below are the accessors of the
  \<^verbatim>\<open>MinimumBayesRisk\<close> object constructed from a lattice with \<^verbatim>\<open>decode_mbr = false\<close>,
  and \<open>print_silence\<close> is the value of that option in a default \<^verbatim>\<open>MinimumBayesRiskOptions\<close>.
  \<open>GetLinearSymbolSequence\<close> returns the input ids, the word ids and the two components
  of the weight.
\<close>

record ('model, 'wb, 'clat, 'lat) lattice_ops =
  ConvertLattice :: "'clat \<Rightarrow> 'lat"
  ShortestPath :: "'lat \<Rightarrow> size_t \<Rightarrow> 'lat"
  ConvertNbestToVector :: "'lat \<Rightarrow> 'lat list"
  GetLinearSymbolSequence :: "'lat \<Rightarrow> int list \<times> int list \<times> fp \<times> fp"
  Find :: "'model \<Rightarrow> int \<Rightarrow> string"
  WordAlignLattice :: "'clat \<Rightarrow> 'model \<Rightarrow> 'wb \<Rightarrow> int \<Rightarrow> bool \<times> 'clat"
  Start :: "'clat \<Rightarrow> int"
  TopSortCompactLatticeIfNeeded :: "'clat \<Rightarrow> 'clat"
  ScaleLattice :: "fp \<Rightarrow> fp \<Rightarrow> 'clat \<Rightarrow> 'clat"
  GetOneBestConfidences :: "'clat \<Rightarrow> fp list"
  GetOneBest :: "'clat \<Rightarrow> int list"
  GetOneBestTimes :: "'clat \<Rightarrow> (fp \<times> fp) list"
  print_silence :: bool

text \<open>OpenFst's \<^verbatim>\<open>fst::kNoStateId\<close>.\<close>

definition kNoStateId :: int where
  "kNoStateId = - 1"

section \<open>The decoder\<close>

text \<open>
  \<^verbatim>\<open>class Decoder\<close> (decoder.hpp:112-202). \<open>model_\<close> stands for the members read from
  the model directory and never assigned after the constructor (\<^verbatim>\<open>decode_fst_\<close>,
  \<^verbatim>\<open>am_nnet_\<close>, \<^verbatim>\<open>trans_model_\<close>, \<^verbatim>\<open>word_syms_\<close>, \<^verbatim>\<open>feature_info_\<close>, the decoder
  configuration and \<^verbatim>\<open>decodable_info_\<close>); \<open>acoustic_scale\<close> and
  \<open>frame_subsampling_factor\<close> are the two fields of \<^verbatim>\<open>decodable_opts_\<close> the code reads.
  A pointer member is \<open>None\<close> when it is \<^verbatim>\<open>NULL\<close>.
\<close>

record ('model, 'wb, 'pipe, 'dec, 'adapt, 'sw) Decoder =
  options :: DecoderOptions
  model :: 'model
  wb_info :: "'wb option"
  acoustic_scale :: fp
  frame_subsampling_factor :: int
  decoder :: "'dec option"
  feature_pipeline :: "'pipe option"
  adaptation_state :: 'adapt
  silence_weighting :: 'sw
  uuid :: string

text \<open>
  The constructor (decoder.hpp:204-289), from the point where the model files have been
  read: \<open>wb_file\<close> is the content of \<^verbatim>\<open>word_boundary.int\<close> when that file exists.
\<close>

definition Decoder_new ::
  "('model, 'pipe, 'dec, 'adapt, 'sw, 'clat) stream_ops \<Rightarrow> 'model \<Rightarrow> 'wb option \<Rightarrow> fp \<Rightarrow> int \<Rightarrow>
   ('model, 'wb, 'pipe, 'dec, 'adapt, 'sw) Decoder" where
  "Decoder_new K loaded wb_file ac_scale subsampling =
     \<lparr>options = \<lparr>enable_word_level = (wb_file \<noteq> None)\<rparr>,
      model = loaded,
      wb_info = wb_file,
      acoustic_scale = ac_scale,
      frame_subsampling_factor = subsampling,
      decoder = None,
      feature_pipeline = None,
      adaptation_state = NewAdaptationState K loaded,
      silence_weighting = NewSilenceWeighting K loaded,
      uuid = []\<rparr>"

text \<open>\<^verbatim>\<open>Decoder::free_decoder\<close> (decoder.hpp:308-318).\<close>

definition free_decoder ::
  "('model, 'wb, 'pipe, 'dec, 'adapt, 'sw) Decoder \<Rightarrow> ('model, 'wb, 'pipe, 'dec, 'adapt, 'sw) Decoder" where
  "free_decoder d = d\<lparr>decoder := None, feature_pipeline := None, uuid := []\<rparr>"

text \<open>\<^verbatim>\<open>Decoder::start_decoding\<close> (decoder.hpp:295-306).\<close>

definition start_decoding ::
  "('model, 'pipe, 'dec, 'adapt, 'sw, 'clat) stream_ops \<Rightarrow>
   ('model, 'wb, 'pipe, 'dec, 'adapt, 'sw) Decoder \<Rightarrow> string \<Rightarrow>
   ('model, 'wb, 'pipe, 'dec, 'adapt, 'sw) Decoder" where
  "start_decoding K d new_uuid =
     (let d1 = free_decoder d;
          pipe = SetAdaptationState K (adaptation_state d1) (NewFeaturePipeline K (model d1));
          d2 = d1\<lparr>feature_pipeline := Some pipe\<rparr>;
          d3 = d2\<lparr>decoder := Some (NewDecoder K (model d2) pipe)\<rparr>
      in d3\<lparr>uuid := new_uuid\<rparr>)"

text \<open>
  \<^verbatim>\<open>Decoder::_decode_wave\<close> (decoder.hpp:455-503), without its timing output. The
  caller's \<^verbatim>\<open>delta_weights\<close> vector is passed in and returned.
\<close>

definition decode_wave ::
  "('model, 'pipe, 'dec, 'adapt, 'sw, 'clat) stream_ops \<Rightarrow>
   ('model, 'wb, 'pipe, 'dec, 'adapt, 'sw) Decoder \<Rightarrow> fp list \<Rightarrow> delta_weights_t \<Rightarrow> fp \<Rightarrow>
   failure + ('model, 'wb, 'pipe, 'dec, 'adapt, 'sw) Decoder \<times> delta_weights_t" where
  "decode_wave K d wave_part delta_weights samp_freq =
     (case feature_pipeline d of
        None \<Rightarrow> Inl NullPointer
      | Some pipe0 \<Rightarrow>
          let pipe1 = AcceptWaveform K samp_freq wave_part pipe0 in
          if Active K (silence_weighting d) \<and> IvectorFeature K pipe1 then
            (case decoder d of
               None \<Rightarrow> Inl NullPointer
             | Some dec \<Rightarrow>
                 let sw1 = ComputeCurrentTraceback K dec (silence_weighting d);
                     (sw2, dw) = GetDeltaWeights K (NumFramesReady K pipe1) delta_weights sw1;
                     pipe2 = UpdateFrameWeights K dw pipe1
                 in Inr (d\<lparr>decoder := Some (AdvanceDecoding K pipe2 dec),
                           feature_pipeline := Some pipe2,
                           silence_weighting := sw2\<rparr>, dw))
          else
            (case decoder d of
               None \<Rightarrow> Inl NullPointer
             | Some dec \<Rightarrow>
                 Inr (d\<lparr>decoder := Some (AdvanceDecoding K pipe1 dec),
                         feature_pipeline := Some pipe1\<rparr>, delta_weights)))"

text \<open>
  \<^verbatim>\<open>Decoder::decode_stream_wav_chunk\<close> and \<^verbatim>\<open>Decoder::decode_stream_raw_wav_chunk\<close>
  (decoder.hpp:320-363), from the point where the chunk has been read: one per-chunk
  decode step, with a \<^verbatim>\<open>delta_weights\<close> vector of their own.
\<close>

definition decode_stream_wav_chunk ::
  "('model, 'pipe, 'dec, 'adapt, 'sw, 'clat) stream_ops \<Rightarrow>
   ('model, 'wb, 'pipe, 'dec, 'adapt, 'sw) Decoder \<Rightarrow> fp \<times> fp list \<Rightarrow>
   failure + ('model, 'wb, 'pipe, 'dec, 'adapt, 'sw) Decoder" where
  "decode_stream_wav_chunk K d wave_data =
     (case decode_wave K d (snd wave_data) [] (fst wave_data) of
        Inl e \<Rightarrow> Inl e
      | Inr (d', delta_weights) \<Rightarrow> Inr d')"

definition decode_stream_raw_wav_chunk ::
  "('model, 'pipe, 'dec, 'adapt, 'sw, 'clat) stream_ops \<Rightarrow>
   ('model, 'wb, 'pipe, 'dec, 'adapt, 'sw) Decoder \<Rightarrow> fp list \<Rightarrow> fp \<Rightarrow>
   failure + ('model, 'wb, 'pipe, 'dec, 'adapt, 'sw) Decoder" where
  "decode_stream_raw_wav_chunk K d data samp_freq =
     (case decode_wave K d data [] samp_freq of
        Inl e \<Rightarrow> Inl e
      | Inr (d', delta_weights) \<Rightarrow> Inr d')"

section \<open>Chunked decoding\<close>

text \<open>
  The conversion \<^verbatim>\<open>int32(x)\<close> of a \<^verbatim>\<open>float\<close>: truncation towards zero, undefined when
  the truncated value is not an \<^verbatim>\<open>int32\<close> or \<open>x\<close> is not finite.
\<close>

definition int32_of_fp :: "fp \<Rightarrow> failure + int" where
  "int32_of_fp x =
     (case x of
        Fin v \<Rightarrow>
          (let t = (if 0 \<le> v then \<lfloor>v\<rfloor> else \<lceil>v\<rceil>)
           in if - (2 ^ 31) \<le> t \<and> t < 2 ^ 31 then Inr t else Inl UndefinedConversion)
      | _ \<Rightarrow> Inl UndefinedConversion)"

definition INT32_MAX :: int where
  "INT32_MAX = 2 ^ 31 - 1"

text \<open>
  The chunk length of \<^verbatim>\<open>decode_wav_audio\<close> and \<^verbatim>\<open>decode_raw_wav_audio\<close>
  (decoder.hpp:375-382, 409-416); \<open>rf\<close> rounds to \<^verbatim>\<open>float\<close>.
\<close>

definition chunk_length_of :: "rounding \<Rightarrow> fp \<Rightarrow> fp \<Rightarrow> failure + int" where
  "chunk_length_of rf samp_freq chunk_size =
     (if fp_less (Fin 0) chunk_size then
        (case int32_of_fp (fp_mul rf samp_freq chunk_size) of
           Inl e \<Rightarrow> Inl e
         | Inr chunk_length \<Rightarrow> Inr (if chunk_length = 0 then 1 else chunk_length))
      else Inr INT32_MAX)"

text \<open>
  The loop of both functions (decoder.hpp:384-395, 418-429). \<open>data\<close> is channel zero of
  the audio, \<^verbatim>\<open>data.Dim()\<close> its length. The sub-vector constructor of the engine checks
  its range: a negative \<^verbatim>\<open>num_samp\<close> at the start of the data fails that check. With
  \<^verbatim>\<open>num_samp = 0\<close> the offset would never advance.
\<close>

function decode_chunks ::
  "('model, 'pipe, 'dec, 'adapt, 'sw, 'clat) stream_ops \<Rightarrow> fp \<Rightarrow> int \<Rightarrow> fp list \<Rightarrow> int \<Rightarrow>
   ('model, 'wb, 'pipe, 'dec, 'adapt, 'sw) Decoder \<Rightarrow> delta_weights_t \<Rightarrow>
   failure + ('model, 'wb, 'pipe, 'dec, 'adapt, 'sw) Decoder \<times> delta_weights_t" where
  "decode_chunks K samp_freq chunk_length data samp_offset d delta_weights =
     (if samp_offset < int (length data) then
        (let samp_remaining = int (length data) - samp_offset;
             num_samp = (if chunk_length < samp_remaining then chunk_length else samp_remaining)
         in if num_samp < 0 \<or> samp_offset < 0 then Inl AssertionFailure
            else
              (case decode_wave K d (take (nat num_samp) (drop (nat samp_offset) data))
                      delta_weights samp_freq of
                 Inl e \<Rightarrow> Inl e
               | Inr (d', delta_weights') \<Rightarrow>
                   if num_samp = 0 then Inl NonTermination
                   else decode_chunks K samp_freq chunk_length data (samp_offset + num_samp)
                          d' delta_weights'))
      else Inr (d, delta_weights))"
  by pat_completeness auto
termination
  by (relation "measure (\<lambda>(K, samp_freq, chunk_length, data, samp_offset, d, delta_weights).
        nat (int (length data) - samp_offset))")
     (auto split: if_splits)

text \<open>
  \<^verbatim>\<open>Decoder::decode_wav_audio\<close> (decoder.hpp:365-396), from the point where the wave
  data has been read: \<open>wave_data\<close> is its sampling frequency and its channel zero.
\<close>

definition decode_wav_audio ::
  "('model, 'pipe, 'dec, 'adapt, 'sw, 'clat) stream_ops \<Rightarrow> rounding \<Rightarrow>
   ('model, 'wb, 'pipe, 'dec, 'adapt, 'sw) Decoder \<Rightarrow> fp \<times> fp list \<Rightarrow> fp \<Rightarrow>
   failure + ('model, 'wb, 'pipe, 'dec, 'adapt, 'sw) Decoder" where
  "decode_wav_audio K rf d wave_data chunk_size =
     (let data = snd wave_data; samp_freq = fst wave_data in
      case chunk_length_of rf samp_freq chunk_size of
        Inl e \<Rightarrow> Inl e
      | Inr chunk_length \<Rightarrow>
          (case decode_chunks K samp_freq chunk_length data 0 d [] of
             Inl e \<Rightarrow> Inl e
           | Inr (d', delta_weights) \<Rightarrow> Inr d'))"

text \<open>
  \<^verbatim>\<open>Decoder::decode_raw_wav_audio\<close> (decoder.hpp:398-430), from the point where
  \<^verbatim>\<open>read_raw_wav_stream\<close> has filled the matrix: \<open>data\<close> is its row zero.
\<close>

definition decode_raw_wav_audio ::
  "('model, 'pipe, 'dec, 'adapt, 'sw, 'clat) stream_ops \<Rightarrow> rounding \<Rightarrow>
   ('model, 'wb, 'pipe, 'dec, 'adapt, 'sw) Decoder \<Rightarrow> fp list \<Rightarrow> fp \<Rightarrow> fp \<Rightarrow>
   failure + ('model, 'wb, 'pipe, 'dec, 'adapt, 'sw) Decoder" where
  "decode_raw_wav_audio K rf d data samp_freq chunk_size =
     (case chunk_length_of rf samp_freq chunk_size of
        Inl e \<Rightarrow> Inl e
      | Inr chunk_length \<Rightarrow>
          (case decode_chunks K samp_freq chunk_length data 0 d [] of
             Inl e \<Rightarrow> Inl e
           | Inr (d', delta_weights) \<Rightarrow> Inr d'))"

text \<open>
  The specification's chunking: the buffer cut into consecutive chunks of \<open>n\<close> samples
  (the last one holds what is left), and the chunks fed one after the other through the
  per-chunk decode step.
\<close>

function split_chunks :: "nat \<Rightarrow> 'a list \<Rightarrow> 'a list list" where
  "split_chunks n xs = (if n = 0 \<or> xs = [] then [] else take n xs # split_chunks n (drop n xs))"
  by pat_completeness auto
termination
  by (relation "measure (\<lambda>(n, xs). length xs)") auto

fun feed_chunks ::
  "('model, 'pipe, 'dec, 'adapt, 'sw, 'clat) stream_ops \<Rightarrow> fp \<Rightarrow> fp list list \<Rightarrow>
   ('model, 'wb, 'pipe, 'dec, 'adapt, 'sw) Decoder \<Rightarrow> delta_weights_t \<Rightarrow>
   failure + ('model, 'wb, 'pipe, 'dec, 'adapt, 'sw) Decoder \<times> delta_weights_t" where
  "feed_chunks K samp_freq [] d delta_weights = Inr (d, delta_weights)"
| "feed_chunks K samp_freq (chunk # chunks) d delta_weights =
     (case decode_wave K d chunk delta_weights samp_freq of
        Inl e \<Rightarrow> Inl e
      | Inr (d', delta_weights') \<Rightarrow> feed_chunks K samp_freq chunks d' delta_weights')"

text \<open>The decoder after the chunks have been fed, starting with no delta weights.\<close>

definition feed_all ::
  "('model, 'pipe, 'dec, 'adapt, 'sw, 'clat) stream_ops \<Rightarrow> fp \<Rightarrow> fp list list \<Rightarrow>
   ('model, 'wb, 'pipe, 'dec, 'adapt, 'sw) Decoder \<Rightarrow>
   failure + ('model, 'wb, 'pipe, 'dec, 'adapt, 'sw) Decoder" where
  "feed_all K samp_freq chunks d =
     (case feed_chunks K samp_freq chunks d [] of
        Inl e \<Rightarrow> Inl e
      | Inr (d', delta_weights) \<Rightarrow> Inr d')"

declare decode_chunks.simps [simp del] split_chunks.simps [simp del]

section \<open>Extraction of the results\<close>

text \<open>
  Modelled from the spec: \<^verbatim>\<open>string_join\<close> of \<^verbatim>\<open>utils.hpp\<close>, which is not among the
  sources; the words are joined with the separator between them.
\<close>

fun string_join :: "string list \<Rightarrow> string \<Rightarrow> string" where
  "string_join [] sep = []"
| "string_join [s] sep = s"
| "string_join (s # t # ts) sep = s @ sep @ string_join (t # ts) sep"

text \<open>
  The body of the loop over the n-best paths in \<^verbatim>\<open>Decoder::_find_alternatives\<close>
  (decoder.hpp:526-548): the alternative pushed for the path \<open>l\<close>. \<open>rd\<close> rounds to
  \<^verbatim>\<open>double\<close>.
\<close>

definition make_alternative ::
  "('model, 'wb, 'clat, 'lat) lattice_ops \<Rightarrow> rounding \<Rightarrow> 'model \<Rightarrow> 'lat \<Rightarrow> Alternative" where
  "make_alternative L rd mdl l =
     (let (input_ids, word_ids, value1, value2) = GetLinearSymbolSequence L l;
          word_strings = map (Find L mdl) word_ids;
          sentence = string_join word_strings '' ''
      in \<lparr>transcript = sentence,
          confidence = calculate_confidence rd value1 value2 (of_nat (length word_ids)),
          am_score = value2,
          lm_score = value1,
          words = []\<rparr>)"

text \<open>
  The word alignment and its outcomes (decoder.hpp:553-579): the aligned lattice and the
  final value of \<^verbatim>\<open>ok\<close>. \<^verbatim>\<open>max_expand\<close> is the constant 0, so \<^verbatim>\<open>max_states\<close> is 0.
\<close>

definition align_lattice ::
  "('model, 'wb, 'clat, 'lat) lattice_ops \<Rightarrow> 'model \<Rightarrow> 'wb \<Rightarrow> 'clat \<Rightarrow> bool \<times> 'clat" where
  "align_lattice L mdl wb clat =
     (let max_states = 0;
          (ok, aligned_clat) = WordAlignLattice L clat mdl wb max_states
      in if \<not> ok then
           (if Start L aligned_clat \<noteq> kNoStateId
            then (True, TopSortCompactLatticeIfNeeded L aligned_clat)
            else (False, aligned_clat))
         else
           (if Start L aligned_clat = kNoStateId
            then (False, aligned_clat)
            else (True, TopSortCompactLatticeIfNeeded L aligned_clat)))"

text \<open>
  The words computed when the alignment was ok (decoder.hpp:584-611); \<open>rf\<close> rounds to
  \<^verbatim>\<open>float\<close>. Both assertions are checked before a word is built.
\<close>

definition make_word ::
  "('model, 'wb, 'clat, 'lat) lattice_ops \<Rightarrow> rounding \<Rightarrow> 'model \<Rightarrow> int \<Rightarrow>
   fp \<times> fp \<Rightarrow> int \<Rightarrow> fp \<Rightarrow> Word" where
  "make_word L rf mdl subsampling time best_word conf =
     (let frame_shift = rf 0.01;
          time_unit = fp_mul rf frame_shift (rf (real_of_int subsampling))
      in \<lparr>start_time = fp_mul rf (fst time) time_unit,
          end_time = fp_mul rf (snd time) time_unit,
          confidence = conf,
          word = Find L mdl best_word\<rparr>)"

definition compute_words ::
  "('model, 'wb, 'clat, 'lat) lattice_ops \<Rightarrow> rounding \<Rightarrow> 'model \<Rightarrow> fp \<Rightarrow> int \<Rightarrow> 'clat \<Rightarrow>
   failure + Word list" where
  "compute_words L rf mdl ac_scale subsampling aligned_clat =
     (let lm_scale = Fin 1;
          scaled = ScaleLattice L lm_scale ac_scale aligned_clat;
          conf = GetOneBestConfidences L scaled;
          best_words = GetOneBest L scaled;
          times = GetOneBestTimes L scaled
      in if \<not> (length conf = length best_words \<and> length best_words = length times)
         then Inl AssertionFailure
         else if \<not> list_all (\<lambda>w. w \<noteq> 0 \<or> print_silence L) best_words
         then Inl AssertionFailure
         else Inr (map (\<lambda>i. make_word L rf mdl subsampling (times ! i) (best_words ! i) (conf ! i))
                     [0..<length best_words]))"

text \<open>The last statement of \<^verbatim>\<open>Decoder::_find_alternatives\<close> (decoder.hpp:613-615).\<close>

definition attach_words :: "Word list \<Rightarrow> utterance_results_t \<Rightarrow> utterance_results_t" where
  "attach_words ws results =
     (if results \<noteq> [] \<and> ws \<noteq> [] then results[0 := (results ! 0)\<lparr>words := ws\<rparr>] else results)"

text \<open>\<^verbatim>\<open>Decoder::_find_alternatives\<close> (decoder.hpp:505-616).\<close>

definition find_alternatives ::
  "('model, 'wb, 'clat, 'lat) lattice_ops \<Rightarrow> rounding \<Rightarrow> rounding \<Rightarrow>
   ('model, 'wb, 'pipe, 'dec, 'adapt, 'sw) Decoder \<Rightarrow> 'clat \<Rightarrow> size_t \<Rightarrow>
   utterance_results_t \<Rightarrow> bool \<Rightarrow> failure + utterance_results_t" where
  "find_alternatives L rd rf d clat n_best results word_level =
     (let lat = ConvertLattice L clat;
          nbest_lat = ShortestPath L lat n_best;
          nbest_lats = ConvertNbestToVector L nbest_lat
      in if nbest_lats = [] then Inr results
         else
           (let results1 = results @ map (make_alternative L rd (model d)) nbest_lats
            in if \<not> (enable_word_level (options d) \<and> word_level) then Inr results1
               else
                 (case wb_info d of
                    None \<Rightarrow> Inl NullPointer
                  | Some wb \<Rightarrow>
                      (let (ok, aligned_clat) = align_lattice L (model d) wb clat
                       in case (if ok
                                then compute_words L rf (model d) (acoustic_scale d)
                                       (frame_subsampling_factor d) aligned_clat
                                else Inr []) of
                            Inl e \<Rightarrow> Inl e
                          | Inr ws \<Rightarrow> Inr (attach_words ws results1)))))"

text \<open>
  \<^verbatim>\<open>Decoder::get_decoded_results\<close> (decoder.hpp:432-453). The handler of the
  \<^verbatim>\<open>try\<close> block throws again, through \<^verbatim>\<open>KALDI_ERR\<close>.
\<close>

definition get_decoded_results ::
  "('model, 'pipe, 'dec, 'adapt, 'sw, 'clat) stream_ops \<Rightarrow> ('model, 'wb, 'clat, 'lat) lattice_ops \<Rightarrow>
   rounding \<Rightarrow> rounding \<Rightarrow> ('model, 'wb, 'pipe, 'dec, 'adapt, 'sw) Decoder \<Rightarrow> size_t \<Rightarrow>
   utterance_results_t \<Rightarrow> bool \<Rightarrow> bool \<Rightarrow>
   failure + ('model, 'wb, 'pipe, 'dec, 'adapt, 'sw) Decoder \<times> utterance_results_t" where
  "get_decoded_results K L rd rf d n_best results word_level bidi_streaming =
     (case (if bidi_streaming then Inr d
            else (case feature_pipeline d of
                    None \<Rightarrow> Inl NullPointer
                  | Some pipe \<Rightarrow>
                      (case decoder d of
                         None \<Rightarrow> Inl NullPointer
                       | Some dec \<Rightarrow>
                           Inr (d\<lparr>feature_pipeline := Some (InputFinished K pipe),
                                   decoder := Some (FinalizeDecoding K dec)\<rparr>)))) of
        Inl e \<Rightarrow> Inl e
      | Inr d1 \<Rightarrow>
          (case decoder d1 of
             None \<Rightarrow> Inl NullPointer
           | Some dec \<Rightarrow>
               if NumFramesDecoded K dec = 0 then Inr (d1, results)
               else
                 (case GetLattice K dec of
                    Inl msg \<Rightarrow>
                      Inl (KaldiError (''unexpected error during decoding lattice :: '' @ msg))
                  | Inr clat \<Rightarrow>
                      (case find_alternatives L rd rf d1 clat n_best results word_level of
                         Inl e \<Rightarrow> Inl e
                       | Inr results' \<Rightarrow> Inr (d1, results')))))"

section \<open>Sequences of calls\<close>

text \<open>
  The public methods of a decoder as values, and a decoder taken through a sequence of
  calls; a call that fails ends the sequence.
\<close>

datatype call =
  StartDecoding string
| FreeDecoder
| DecodeStreamWavChunk "fp \<times> fp list"
| DecodeStreamRawWavChunk "fp list" fp
| DecodeWavAudio "fp \<times> fp list" fp
| DecodeRawWavAudio "fp list" fp fp
| GetDecodedResults size_t utterance_results_t bool bool

fun call_decoder ::
  "('model, 'pipe, 'dec, 'adapt, 'sw, 'clat) stream_ops \<Rightarrow> ('model, 'wb, 'clat, 'lat) lattice_ops \<Rightarrow>
   rounding \<Rightarrow> rounding \<Rightarrow> ('model, 'wb, 'pipe, 'dec, 'adapt, 'sw) Decoder \<Rightarrow> call \<Rightarrow>
   failure + ('model, 'wb, 'pipe, 'dec, 'adapt, 'sw) Decoder" where
  "call_decoder K L rd rf d (StartDecoding u) = Inr (start_decoding K d u)"
| "call_decoder K L rd rf d FreeDecoder = Inr (free_decoder d)"
| "call_decoder K L rd rf d (DecodeStreamWavChunk wave_data) = decode_stream_wav_chunk K d wave_data"
| "call_decoder K L rd rf d (DecodeStreamRawWavChunk data samp_freq) =
     decode_stream_raw_wav_chunk K d data samp_freq"
| "call_decoder K L rd rf d (DecodeWavAudio wave_data chunk_size) =
     decode_wav_audio K rf d wave_data chunk_size"
| "call_decoder K L rd rf d (DecodeRawWavAudio data samp_freq chunk_size) =
     decode_raw_wav_audio K rf d data samp_freq chunk_size"
| "call_decoder K L rd rf d (GetDecodedResults n_best results word_level bidi_streaming) =
     (case get_decoded_results K L rd rf d n_best results word_level bidi_streaming of
        Inl e \<Rightarrow> Inl e
      | Inr (d', results') \<Rightarrow> Inr d')"

fun call_sequence ::
  "('model, 'pipe, 'dec, 'adapt, 'sw, 'clat) stream_ops \<Rightarrow> ('model, 'wb, 'clat, 'lat) lattice_ops \<Rightarrow>
   rounding \<Rightarrow> rounding \<Rightarrow> ('model, 'wb, 'pipe, 'dec, 'adapt, 'sw) Decoder \<Rightarrow> call list \<Rightarrow>
   failure + ('model, 'wb, 'pipe, 'dec, 'adapt, 'sw) Decoder" where
  "call_sequence K L rd rf d [] = Inr d"
| "call_sequence K L rd rf d (c # cs) =
     (case call_decoder K L rd rf d c of
        Inl e \<Rightarrow> Inl e
      | Inr d' \<Rightarrow> call_sequence K L rd rf d' cs)"

text \<open>
  Two states of a decoder agree on what the constructor set and no method assigns: the
  model, the options, the word-boundary information, the two fields of
  \<^verbatim>\<open>decodable_opts_\<close> and the adaptation state.
\<close>

definition same_resources ::
  "('model, 'wb, 'pipe, 'dec, 'adapt, 'sw) Decoder \<Rightarrow>
   ('model, 'wb, 'pipe, 'dec, 'adapt, 'sw) Decoder \<Rightarrow> bool" where
  "same_resources d d' =
     (model d' = model d \<and> options d' = options d \<and> wb_info d' = wb_info d \<and>
      acoustic_scale d' = acoustic_scale d \<and>
      frame_subsampling_factor d' = frame_subsampling_factor d \<and>
      adaptation_state d' = adaptation_state d)"

section \<open>The pool of decoders\<close>

text \<open>
  \<^verbatim>\<open>class DecoderQueue\<close> (decoder.hpp:658-748), seen from one thread: the queue of the
  decoders that are ready. \<^verbatim>\<open>pop_\<close> on an empty queue waits for another thread's
  \<^verbatim>\<open>push_\<close>, so it has no result here.
\<close>

record ('model, 'wb, 'pipe, 'dec, 'adapt, 'sw) DecoderQueue =
  queue :: "('model, 'wb, 'pipe, 'dec, 'adapt, 'sw) Decoder list"



definition pop ::
  "('model, 'wb, 'pipe, 'dec, 'adapt, 'sw) DecoderQueue \<Rightarrow>
   (('model, 'wb, 'pipe, 'dec, 'adapt, 'sw) Decoder \<times>
    ('model, 'wb, 'pipe, 'dec, 'adapt, 'sw) DecoderQueue) option" where
  "pop q = (case queue q of [] \<Rightarrow> None | item # rest \<Rightarrow> Some (item, q\<lparr>queue := rest\<rparr>))"

definition acquire ::
  "('model, 'wb, 'pipe, 'dec, 'adapt, 'sw) DecoderQueue \<Rightarrow>
   (('model, 'wb, 'pipe, 'dec, 'adapt, 'sw) Decoder \<times>
    ('model, 'wb, 'pipe, 'dec, 'adapt, 'sw) DecoderQueue) option" where
  "acquire q = pop q"


section \<open>A small engine\<close>

text \<open>
  An engine small enough to run the definitions on concrete inputs. The model is the
  symbol table; a pipeline counts the frames it has (one per sample) and carries an
  adaptation state that grows with the audio; the search state is the number of frames
  decoded, which is also the lattice; a lattice of \<open>n\<close> frames has \<open>n\<close> paths, each
  with the word ids 1 and 2.
\<close>

record toy_pipe =
  pipe_adapt :: nat
  pipe_frames :: nat
  pipe_finished :: bool

definition toy_stream :: "(string list, toy_pipe, nat, nat, nat, nat) stream_ops" where
  "toy_stream =
     \<lparr>NewFeaturePipeline = (\<lambda>m. \<lparr>pipe_adapt = 0, pipe_frames = 0, pipe_finished = False\<rparr>),
      SetAdaptationState = (\<lambda>a p. p\<lparr>pipe_adapt := a\<rparr>),
      NewDecoder = (\<lambda>m p. 0),
      NewAdaptationState = (\<lambda>m. 0),
      NewSilenceWeighting = (\<lambda>m. 0),
      AcceptWaveform = (\<lambda>f wave p. p\<lparr>pipe_adapt := pipe_adapt p + length wave,
                                       pipe_frames := pipe_frames p + length wave\<rparr>),
      Active = (\<lambda>sw. True),
      IvectorFeature = (\<lambda>p. True),
      ComputeCurrentTraceback = (\<lambda>dec sw. dec),
      NumFramesReady = (\<lambda>p. int (pipe_frames p)),
      GetDeltaWeights = (\<lambda>n dw sw. (sw, [(n, Fin 0)])),
      UpdateFrameWeights = (\<lambda>dw p. p),
      AdvanceDecoding = (\<lambda>p dec. pipe_frames p),
      InputFinished = (\<lambda>p. p\<lparr>pipe_finished := True\<rparr>),
      FinalizeDecoding = (\<lambda>dec. dec),
      NumFramesDecoded = (\<lambda>dec. int dec),
      GetLattice = (\<lambda>dec. Inr dec)\<rparr>"

definition toy_lattice :: "(string list, unit, nat, nat) lattice_ops" where
  "toy_lattice =
     \<lparr>ConvertLattice = (\<lambda>clat. clat),
      ShortestPath = (\<lambda>lat n. min lat (unat n)),
      ConvertNbestToVector = (\<lambda>lat. [0..<lat]),
      GetLinearSymbolSequence = (\<lambda>l. ([], [1, 2], Fin (- 50), Fin (- 500))),
      Find = (\<lambda>m i. if 0 \<le> i \<and> nat i < length m then m ! nat i else []),
      WordAlignLattice = (\<lambda>clat m wb max_states. (True, clat)),
      Start = (\<lambda>clat. 0),
      TopSortCompactLatticeIfNeeded = (\<lambda>clat. clat),
      ScaleLattice = (\<lambda>lm_scale ac_scale clat. clat),
      GetOneBestConfidences = (\<lambda>clat. [Fin 1, Fin (1 / 2)]),
      GetOneBest = (\<lambda>clat. [1, 2]),
      GetOneBestTimes = (\<lambda>clat. [(Fin 0, Fin 10), (Fin 10, Fin 30)]),
      print_silence = False\<rparr>"

text \<open>The same engine with a word alignment that reports failure.\<close>

definition toy_lattice_partial :: "(string list, unit, nat, nat) lattice_ops" where
  "toy_lattice_partial = toy_lattice\<lparr>WordAlignLattice := (\<lambda>clat m wb max_states. (False, clat))\<rparr>"

definition toy_symbols :: "string list" where
  "toy_symbols = [''<eps>'', ''hello'', ''world'']"

text \<open>A decoder of this engine whose model directory has a word-boundary file.\<close>

definition toy_decoder :: "(string list, unit, toy_pipe, nat, nat, nat) Decoder" where
  "toy_decoder = Decoder_new toy_stream toy_symbols (Some ()) (Fin 1) 3"

text \<open>
  States of a decoder of this engine: started for an utterance, after one chunk of three
  samples, and after the end of the input; the alternative the engine's paths give, and
  the words of its word alignment.
\<close>

definition toy_started :: "(string list, unit, toy_pipe, nat, nat, nat) Decoder" where
  "toy_started = start_decoding toy_stream toy_decoder ''utt-1''"

definition toy_decoded :: "(string list, unit, toy_pipe, nat, nat, nat) Decoder" where
  "toy_decoded =
     toy_started\<lparr>decoder := Some 3,
       feature_pipeline := Some \<lparr>pipe_adapt = 3, pipe_frames = 3, pipe_finished = False\<rparr>\<rparr>"

definition toy_finalized :: "(string list, unit, toy_pipe, nat, nat, nat) Decoder" where
  "toy_finalized =
     toy_started\<lparr>decoder := Some 3,
       feature_pipeline := Some \<lparr>pipe_adapt = 3, pipe_frames = 3, pipe_finished = True\<rparr>\<rparr>"

definition toy_alternative :: Alternative where
  "toy_alternative =
     \<lparr>transcript = ''hello world'',
      confidence = Fin (24656979658213 / 25000000000000),
      am_score = Fin (- 500),
      lm_score = Fin (- 50),
      words = []\<rparr>"

definition toy_words :: "Word list" where
  "toy_words =
     [\<lparr>start_time = Fin 0, end_time = Fin (3 / 10), confidence = Fin 1, word = ''hello''\<rparr>,
      \<lparr>start_time = Fin (3 / 10), end_time = Fin (9 / 10), confidence = Fin (1 / 2),
        word = ''world''\<rparr>]"

text \<open>
  The same engine with an aligned lattice that has no start state, and an alternative
  that a caller's vector holds before the call.
\<close>

definition toy_lattice_empty :: "(string list, unit, nat, nat) lattice_ops" where
  "toy_lattice_empty = toy_lattice\<lparr>Start := (\<lambda>clat. kNoStateId)\<rparr>"

definition toy_previous :: Alternative where
  "toy_previous =
     \<lparr>transcript = ''earlier'', confidence = Fin 1, am_score = Fin 0, lm_score = Fin 0,
      words = []\<rparr>"

text \<open>One utterance on a decoder: start, one chunk of three samples, extraction.\<close>

definition toy_utterance :: "call list" where
  "toy_utterance =
     [StartDecoding ''utt-1'',
      DecodeStreamRawWavChunk [Fin 1, Fin 2, Fin 3] (Fin 16000),
      GetDecodedResults 2 [] True False]"

text \<open>The same utterance with its audio in two chunks.\<close>

definition toy_two_chunks :: "call list" where
  "toy_two_chunks =
     [StartDecoding ''utt-1'',
      DecodeStreamRawWavChunk [Fin 1, Fin 2] (Fin 16000),
      DecodeStreamRawWavChunk [Fin 3] (Fin 16000),
      GetDecodedResults 2 [] True False]"

section \<open>Evaluation on the small engine\<close>

lemmas toy_defs =
  toy_stream_def toy_lattice_def toy_lattice_partial_def toy_symbols_def toy_decoder_def
  toy_started_def toy_decoded_def toy_finalized_def toy_alternative_def toy_words_def
  Decoder_new_def start_decoding_def free_decoder_def

lemmas extraction_defs =
  find_alternatives_def align_lattice_def compute_words_def make_word_def
  make_alternative_def attach_words_def calculate_confidence_def fp_of_size_def
  std_max_def std_min_def exact_def kNoStateId_def toy_lattice_empty_def toy_previous_def


section \<open>Properties of the confidence\<close>

lemma std_max_min_unit: "in_unit_interval (std_max (Fin 0) (std_min (Fin 1) x))"
  by (cases x) (simp_all add: std_max_def std_min_def in_unit_interval_def)

lemma std_max_min_clamp:
  "x \<noteq> NaN \<Longrightarrow> std_max (Fin 0) (std_min (Fin 1) x) = clamp (Fin 0) (Fin 1) x"
  by (cases x) (simp_all add: std_max_def std_min_def clamp_def)

lemma std_max_min_NaN: "std_max (Fin 0) (std_min (Fin 1) NaN) = Fin 1"
  by (simp add: std_max_def std_min_def)


text \<open>
  C1. For every \<^verbatim>\<open>lm_score\<close>, \<^verbatim>\<open>am_score\<close> and \<^verbatim>\<open>n_words\<close> (and every rounding of the
  \<^verbatim>\<open>double\<close> operations), \<^verbatim>\<open>calculate_confidence\<close> returns
  \<open>clamp(0, 1, -0.0001466488 * (2.388449 * lm_score + am_score) / (n_words + 1) + 0.956)\<close>,
  the formula being evaluated in the code's arithmetic, and the returned confidence lies
  in \<open>[0, 1]\<close>: also for infinite scores, for NaN scores (where the formula's value is a
  NaN and the result is 1) and for \<^verbatim>\<open>n_words = SIZE_MAX\<close> (where \<^verbatim>\<open>n_words + 1\<close> is 0).
\<close>

theorem calculate_confidence_clamp_unit:
  fixes rd :: rounding and lm_score am_score :: fp and n_words :: size_t
  defines "x \<equiv> fp_add rd
          (fp_div rd
             (fp_mul rd (fp_neg (rd 0.0001466488))
                (fp_add rd (fp_mul rd (rd 2.388449) lm_score) am_score))
             (fp_of_size rd (n_words + 1)))
          (rd 0.956)"
  shows "in_unit_interval (calculate_confidence rd lm_score am_score n_words) \<and>
         (x \<noteq> NaN \<longrightarrow>
            calculate_confidence rd lm_score am_score n_words = clamp (Fin 0) (Fin 1) x) \<and>
         (x = NaN \<longrightarrow> calculate_confidence rd lm_score am_score n_words = Fin 1)"
  unfolding x_def calculate_confidence_def
  using std_max_min_unit std_max_min_clamp std_max_min_NaN by metis


text \<open>
  The example of the specification: \<^verbatim>\<open>lm_score = -50\<close>, \<^verbatim>\<open>am_score = -500\<close>, five words,
  without rounding.
\<close>

theorem calculate_confidence_example:
  "calculate_confidence exact (Fin (- 50)) (Fin (- 500)) 5 =
     clamp (Fin 0) (Fin 1) (Fin (48556979658213 / 50000000000000)) \<and>
   in_unit_interval (calculate_confidence exact (Fin (- 50)) (Fin (- 500)) 5)"
proof -
  have "fp_add exact
          (fp_div exact
             (fp_mul exact (fp_neg (exact 0.0001466488))
                (fp_add exact (fp_mul exact (exact 2.388449) (Fin (- 50))) (Fin (- 500))))
             (fp_of_size exact (5 + 1)))
          (exact 0.956) = Fin (48556979658213 / 50000000000000)"
    by (simp add: exact_def fp_of_size_def)
  with calculate_confidence_clamp_unit [of exact "Fin (- 50)" "Fin (- 500)" 5]
  show ?thesis by (simp add: clamp_def in_unit_interval_def)
qed


section \<open>Properties of the extraction\<close>

lemma length_attach_words: "length (attach_words ws rs) = length rs"
  by (simp add: attach_words_def)

lemma nth_attach_words: "0 < i \<Longrightarrow> attach_words ws rs ! i = rs ! i"
  by (simp add: attach_words_def)

lemma attach_words_append:
  "rs \<noteq> [] \<Longrightarrow> attach_words ws (rs @ new) = attach_words ws rs @ new"
  by (cases rs) (simp_all add: attach_words_def)

lemma words_make_alternative: "words (make_alternative L rd mdl l) = []"
  by (simp add: make_alternative_def split: prod.splits)

lemma find_alternatives_no_paths:
  "ConvertNbestToVector L (ShortestPath L (ConvertLattice L clat) n_best) = [] \<Longrightarrow>
   find_alternatives L rd rf d clat n_best results word_level = Inr results"
  by (simp add: find_alternatives_def)

lemma find_alternatives_shape:
  assumes "find_alternatives L rd rf d clat n_best results word_level = Inr out"
  shows "out = results \<or>
         out = results @ map (make_alternative L rd (model d))
                 (ConvertNbestToVector L (ShortestPath L (ConvertLattice L clat) n_best)) \<or>
         (\<exists>ws. enable_word_level (options d) \<and> word_level \<and> wb_info d \<noteq> None \<and>
               out = attach_words ws (results @ map (make_alternative L rd (model d))
                 (ConvertNbestToVector L (ShortestPath L (ConvertLattice L clat) n_best))))"
  using assms
  by (auto simp: find_alternatives_def Let_def
           split: if_splits option.splits prod.splits sum.splits)

text \<open>
  C2. On a decoder that has been started, if the search decoded zero frames, or if the
  n-best paths of the lattice are an empty vector, \<^verbatim>\<open>get_decoded_results\<close> returns
  normally and the results vector is as it was passed in: no alternative is added and
  nothing is thrown. (The warnings are log output, which is not modelled.)
\<close>

theorem get_decoded_results_empty:
  fixes K :: "('model, 'pipe, 'dec, 'adapt, 'sw, 'clat) stream_ops"
    and L :: "('model, 'wb, 'clat, 'lat) lattice_ops"
    and d :: "('model, 'wb, 'pipe, 'dec, 'adapt, 'sw) Decoder"
    and bidi_streaming :: bool and pipe :: 'pipe and dec :: 'dec
  assumes started: "feature_pipeline d = Some pipe" "decoder d = Some dec"
  defines "dec1 \<equiv> (if bidi_streaming then dec else FinalizeDecoding K dec)"
  defines "d1 \<equiv> (if bidi_streaming then d
                  else d\<lparr>feature_pipeline := Some (InputFinished K pipe),
                         decoder := Some (FinalizeDecoding K dec)\<rparr>)"
  assumes empty: "NumFramesDecoded K dec1 = 0 \<or>
       (\<exists>clat. GetLattice K dec1 = Inr clat \<and>
          ConvertNbestToVector L (ShortestPath L (ConvertLattice L clat) n_best) = [])"
  shows "get_decoded_results K L rd rf d n_best results word_level bidi_streaming =
           Inr (d1, results)"
proof (cases "NumFramesDecoded K dec1 = 0")
  case True
  with started show ?thesis
    by (cases bidi_streaming) (simp_all add: get_decoded_results_def dec1_def d1_def)
next
  case False
  with empty obtain clat where
    "GetLattice K dec1 = Inr clat"
    "ConvertNbestToVector L (ShortestPath L (ConvertLattice L clat) n_best) = []"
    by blast
  with False started show ?thesis
    by (cases bidi_streaming)
       (simp_all add: get_decoded_results_def dec1_def d1_def find_alternatives_no_paths)
qed


text \<open>No audio at all, and three frames with \<^verbatim>\<open>n_best = 0\<close>.\<close>

theorem get_decoded_results_empty_witness:
  "get_decoded_results toy_stream toy_lattice exact exact toy_started 1 [] True False =
     Inr (toy_started\<lparr>feature_pipeline :=
            Some \<lparr>pipe_adapt = 0, pipe_frames = 0, pipe_finished = True\<rparr>\<rparr>, []) \<and>
   get_decoded_results toy_stream toy_lattice exact exact toy_decoded 0 [] True False =
     Inr (toy_finalized, [])"
proof -
  have "get_decoded_results toy_stream toy_lattice exact exact toy_started 1 [] True False =
     Inr (toy_started\<lparr>feature_pipeline :=
            Some \<lparr>pipe_adapt = 0, pipe_frames = 0, pipe_finished = True\<rparr>\<rparr>, [])"
    using get_decoded_results_empty [where K = toy_stream and L = toy_lattice
        and d = toy_started and dec = 0 and bidi_streaming = False and n_best = 1
        and pipe = "\<lparr>pipe_adapt = 0, pipe_frames = 0, pipe_finished = False\<rparr>"
        and rd = exact and rf = exact and results = "[]" and word_level = True]
    by (simp add: toy_defs)
  moreover
  have "get_decoded_results toy_stream toy_lattice exact exact toy_decoded 0 [] True False =
     Inr (toy_finalized, [])"
    using get_decoded_results_empty [where K = toy_stream and L = toy_lattice
        and d = toy_decoded and dec = 3 and bidi_streaming = False and n_best = 0
        and pipe = "\<lparr>pipe_adapt = 3, pipe_frames = 3, pipe_finished = False\<rparr>"
        and rd = exact and rf = exact and results = "[]" and word_level = True]
    by (simp add: toy_defs)
  ultimately show ?thesis by simp
qed


subsection \<open>Which results carry words\<close>

lemma words_after_find_alternatives:
  assumes "find_alternatives L rd rf d clat n_best results word_level = Inr out"
  shows "(\<forall>i. 0 < i \<and> i < length out \<longrightarrow>
            words (out ! i) = (if i < length results then words (results ! i) else [])) \<and>
         (out \<noteq> [] \<and> words (out ! 0) \<noteq> (if results = [] then [] else words (results ! 0)) \<longrightarrow>
            word_level \<and> enable_word_level (options d) \<and> wb_info d \<noteq> None)"
proof -
  let ?new = "map (make_alternative L rd (model d))
                (ConvertNbestToVector L (ShortestPath L (ConvertLattice L clat) n_best))"
  have new: "\<forall>i. i < length (results @ ?new) \<longrightarrow>
      words ((results @ ?new) ! i) = (if i < length results then words (results ! i) else [])"
    by (simp add: nth_append words_make_alternative)
  have first: "results @ ?new \<noteq> [] \<longrightarrow>
      words ((results @ ?new) ! 0) = (if results = [] then [] else words (results ! 0))"
    by (cases results) (simp_all add: words_make_alternative nth_Cons')
  from find_alternatives_shape [OF assms]
  consider "out = results" | "out = results @ ?new"
    | ws where "enable_word_level (options d)" "word_level" "wb_info d \<noteq> None"
        "out = attach_words ws (results @ ?new)"
    by blast
  then show ?thesis
  proof cases
    case 1
    then show ?thesis by simp
  next
    case 2
    show ?thesis unfolding 2 using new first by blast
  next
    case 3
    have "\<forall>i. 0 < i \<and> i < length out \<longrightarrow>
            words (out ! i) = (if i < length results then words (results ! i) else [])"
      unfolding 3(4) using new by (simp add: nth_attach_words length_attach_words)
    with 3(1-3) show ?thesis by simp
  qed
qed

lemma Decoder_new_word_level:
  "wb_info (Decoder_new K loaded wb_file ac_scale subsampling) = wb_file \<and>
   enable_word_level (options (Decoder_new K loaded wb_file ac_scale subsampling)) =
     (wb_file \<noteq> None)"
  by (simp add: Decoder_new_def)

lemma same_resources_refl: "same_resources d d"
  by (simp add: same_resources_def)

lemma same_resources_trans:
  "same_resources d d' \<Longrightarrow> same_resources d' d'' \<Longrightarrow> same_resources d d''"
  by (simp add: same_resources_def)

lemma same_resources_free: "same_resources d (free_decoder d)"
  by (simp add: same_resources_def free_decoder_def)

lemma same_resources_start: "same_resources d (start_decoding K d u)"
  by (simp add: same_resources_def start_decoding_def free_decoder_def Let_def)

lemma same_resources_decode_wave:
  "decode_wave K d wave_part delta_weights samp_freq = Inr (d', dw') \<Longrightarrow> same_resources d d'"
  by (auto simp: decode_wave_def same_resources_def Let_def
           split: option.splits if_splits prod.splits)

lemma same_resources_decode_chunks:
  "decode_chunks K samp_freq chunk_length data samp_offset d dw = Inr (d', dw') \<Longrightarrow>
   same_resources d d'"
proof (induction K samp_freq chunk_length data samp_offset d dw rule: decode_chunks.induct)
  case (1 K samp_freq chunk_length data samp_offset d delta_weights)
  let ?rem = "int (length data) - samp_offset"
  let ?n = "if chunk_length < ?rem then chunk_length else ?rem"
  let ?part = "take (nat ?n) (drop (nat samp_offset) data)"
  show ?case
  proof (cases "samp_offset < int (length data)")
    case False
    with 1(2) have "d' = d" by (subst (asm) decode_chunks.simps) simp
    then show ?thesis by (simp add: same_resources_refl)
  next
    case True
    from 1(2) True have guard: "\<not> (?n < 0 \<or> samp_offset < 0)"
      by (subst (asm) decode_chunks.simps) (auto simp: Let_def split: if_splits)
    from 1(2) True guard obtain d1 dw1 where
      one: "decode_wave K d ?part delta_weights samp_freq = Inr (d1, dw1)"
      and nz: "?n \<noteq> 0"
      and rest: "decode_chunks K samp_freq chunk_length data (samp_offset + ?n) d1 dw1 =
                   Inr (d', dw')"
      by (subst (asm) decode_chunks.simps)
         (simp add: Let_def split: sum.splits prod.splits if_splits)
    from 1(1) [OF True refl refl guard one refl nz rest]
    have "same_resources d1 d'" .
    with same_resources_decode_wave [OF one] show ?thesis by (rule same_resources_trans)
  qed
qed

lemma same_resources_decode_wav_audio:
  "decode_wav_audio K rf d wave_data chunk_size = Inr d' \<Longrightarrow> same_resources d d'"
  by (auto simp: decode_wav_audio_def Let_def split: sum.splits prod.splits
           dest: same_resources_decode_chunks)

lemma same_resources_decode_raw_wav_audio:
  "decode_raw_wav_audio K rf d data samp_freq chunk_size = Inr d' \<Longrightarrow> same_resources d d'"
  by (auto simp: decode_raw_wav_audio_def split: sum.splits prod.splits
           dest: same_resources_decode_chunks)

lemma same_resources_decode_stream_wav_chunk:
  "decode_stream_wav_chunk K d wave_data = Inr d' \<Longrightarrow> same_resources d d'"
  by (auto simp: decode_stream_wav_chunk_def split: sum.splits prod.splits
           dest: same_resources_decode_wave)

lemma same_resources_decode_stream_raw_wav_chunk:
  "decode_stream_raw_wav_chunk K d data samp_freq = Inr d' \<Longrightarrow> same_resources d d'"
  by (auto simp: decode_stream_raw_wav_chunk_def split: sum.splits prod.splits
           dest: same_resources_decode_wave)

lemma same_resources_get_decoded_results:
  "get_decoded_results K L rd rf d n_best results word_level bidi_streaming = Inr (d', out) \<Longrightarrow>
   same_resources d d'"
  by (cases bidi_streaming)
     (auto simp: get_decoded_results_def same_resources_def
           split: option.splits if_splits sum.splits)

lemma same_resources_call_decoder:
  "call_decoder K L rd rf d c = Inr d' \<Longrightarrow> same_resources d d'"
proof (cases c)
  case (GetDecodedResults n_best results word_level bidi_streaming)
  assume "call_decoder K L rd rf d c = Inr d'"
  with GetDecodedResults obtain out where
    "get_decoded_results K L rd rf d n_best results word_level bidi_streaming = Inr (d', out)"
    by (auto split: sum.splits)
  then show ?thesis by (rule same_resources_get_decoded_results)
qed (auto simp: same_resources_free same_resources_start
      dest: same_resources_decode_wav_audio same_resources_decode_raw_wav_audio
        same_resources_decode_stream_wav_chunk same_resources_decode_stream_raw_wav_chunk)

lemma same_resources_call_sequence:
  "call_sequence K L rd rf d cs = Inr d' \<Longrightarrow> same_resources d d'"
proof (induction cs arbitrary: d)
  case Nil
  then show ?case by (simp add: same_resources_refl)
next
  case (Cons c cs)
  from Cons.prems obtain d1 where one: "call_decoder K L rd rf d c = Inr d1"
    and rest: "call_sequence K L rd rf d1 cs = Inr d'"
    by (auto split: sum.splits)
  from same_resources_call_decoder [OF one] Cons.IH [OF rest]
  show ?case by (rule same_resources_trans)
qed


text \<open>
  C3. In every extraction, a result other than the first has the words it had before
  (none, for a result the extraction adds); the words of the first result change only
  when word-level output was requested, the decoder's \<^verbatim>\<open>enable_word_level\<close> option is
  set and its word-boundary information is present, and then the result list is not
  empty. On a decoder that came from the constructor through calls of its methods, the
  word-boundary information is the one read at construction, and the option is set
  exactly when the word-boundary file was there.
\<close>

theorem words_only_on_first_result:
  assumes "find_alternatives L rd rf d clat n_best results word_level = Inr out"
  shows "(\<forall>i. 0 < i \<and> i < length out \<longrightarrow>
            words (out ! i) = (if i < length results then words (results ! i) else [])) \<and>
         (out \<noteq> [] \<and> words (out ! 0) \<noteq> (if results = [] then [] else words (results ! 0)) \<longrightarrow>
            word_level \<and> enable_word_level (options d) \<and> wb_info d \<noteq> None) \<and>
         (call_sequence K L' rd' rf' (Decoder_new K loaded wb_file ac_scale subsampling) calls =
            Inr d \<longrightarrow>
            wb_info d = wb_file \<and> enable_word_level (options d) = (wb_file \<noteq> None))"
proof -
  have "wb_info d = wb_file \<and> enable_word_level (options d) = (wb_file \<noteq> None)"
    if "call_sequence K L' rd' rf' (Decoder_new K loaded wb_file ac_scale subsampling) calls =
          Inr d"
    using same_resources_call_sequence [OF that]
      Decoder_new_word_level [of K loaded wb_file ac_scale subsampling]
    by (simp add: same_resources_def)
  with words_after_find_alternatives [OF assms] show ?thesis by blast
qed

lemma toy_find_alternatives:
  "find_alternatives toy_lattice exact exact toy_finalized 3 2 [] True =
     Inr [toy_alternative\<lparr>words := toy_words\<rparr>, toy_alternative]"
  by (simp add: extraction_defs toy_defs upt_rec)

lemma toy_call_sequence:
  "call_sequence toy_stream toy_lattice exact exact toy_decoder toy_utterance = Inr toy_finalized"
  by (simp add: toy_utterance_def decode_stream_raw_wav_chunk_def decode_wave_def
        get_decoded_results_def extraction_defs toy_defs upt_rec)


theorem words_only_on_first_result_witness:
  "find_alternatives toy_lattice exact exact toy_finalized 3 2 [] True =
     Inr [toy_alternative\<lparr>words := toy_words\<rparr>, toy_alternative] \<and>
   words ([toy_alternative\<lparr>words := toy_words\<rparr>, toy_alternative] ! 1) = [] \<and>
   words ([toy_alternative\<lparr>words := toy_words\<rparr>, toy_alternative] ! 0) \<noteq> [] \<and>
   enable_word_level (options toy_finalized) \<and> wb_info toy_finalized = Some ()"
  using words_only_on_first_result [OF toy_find_alternatives, where K = toy_stream
      and L' = toy_lattice and rd' = exact and rf' = exact and loaded = toy_symbols
      and wb_file = "Some ()" and ac_scale = "Fin 1" and subsampling = 3
      and calls = toy_utterance]
    toy_find_alternatives toy_call_sequence [unfolded toy_decoder_def]
  by (simp add: toy_words_def toy_alternative_def)

subsection \<open>The outcomes of the word alignment\<close>

text \<open>
  C7. When the extraction reaches the word alignment (there are n-best paths, word-level
  output is enabled and requested): if the alignment reports failure but the aligned
  lattice has a start state, the extraction goes on with that partial lattice, sorted
  topologically, and attaches the words computed from it; if the aligned lattice has no
  start state, whatever the alignment reported, no words are computed or attached and
  the alternatives are returned as they were built.
\<close>

theorem word_alignment_outcomes:
  assumes paths: "ConvertNbestToVector L (ShortestPath L (ConvertLattice L clat) n_best) \<noteq> []"
    and requested: "enable_word_level (options d)" "word_level"
    and boundary: "wb_info d = Some wb"
    and aligned: "WordAlignLattice L clat (model d) wb 0 = (ok, aligned_clat)"
  shows "(\<not> ok \<and> Start L aligned_clat \<noteq> kNoStateId \<longrightarrow>
            find_alternatives L rd rf d clat n_best results word_level =
              (case compute_words L rf (model d) (acoustic_scale d) (frame_subsampling_factor d)
                      (TopSortCompactLatticeIfNeeded L aligned_clat) of
                 Inl e \<Rightarrow> Inl e
               | Inr ws \<Rightarrow>
                   Inr (attach_words ws
                          (results @ map (make_alternative L rd (model d))
                             (ConvertNbestToVector L
                                (ShortestPath L (ConvertLattice L clat) n_best)))))) \<and>
         (Start L aligned_clat = kNoStateId \<longrightarrow>
            find_alternatives L rd rf d clat n_best results word_level =
              Inr (results @ map (make_alternative L rd (model d))
                     (ConvertNbestToVector L (ShortestPath L (ConvertLattice L clat) n_best))))"
  using assms
  by (simp add: find_alternatives_def align_lattice_def Let_def attach_words_def)


theorem word_alignment_outcomes_witness:
  "find_alternatives toy_lattice_partial exact exact toy_finalized 3 2 [] True =
     Inr [toy_alternative\<lparr>words := toy_words\<rparr>, toy_alternative] \<and>
   find_alternatives toy_lattice_empty exact exact toy_finalized 3 2 [] True =
     Inr [toy_alternative, toy_alternative]"
proof -
  have "find_alternatives toy_lattice_partial exact exact toy_finalized 3 2 [] True =
     Inr [toy_alternative\<lparr>words := toy_words\<rparr>, toy_alternative]"
    using word_alignment_outcomes [where L = toy_lattice_partial and d = toy_finalized
        and clat = 3 and n_best = 2 and word_level = True and wb = "()" and ok = False
        and aligned_clat = 3 and rd = exact and rf = exact and results = "[]"]
    by (simp add: compute_words_def make_word_def make_alternative_def attach_words_def
          calculate_confidence_def fp_of_size_def std_max_def std_min_def exact_def
          kNoStateId_def toy_defs upt_rec)
  moreover
  have "find_alternatives toy_lattice_empty exact exact toy_finalized 3 2 [] True =
     Inr [toy_alternative, toy_alternative]"
    using word_alignment_outcomes [where L = toy_lattice_empty and d = toy_finalized
        and clat = 3 and n_best = 2 and word_level = True and wb = "()" and ok = True
        and aligned_clat = 3 and rd = exact and rf = exact and results = "[]"]
    by (simp add: compute_words_def make_word_def make_alternative_def attach_words_def
          calculate_confidence_def fp_of_size_def std_max_def std_min_def exact_def
          kNoStateId_def toy_lattice_empty_def toy_defs upt_rec)
  ultimately show ?thesis by simp
qed


subsection \<open>Results already in the vector\<close>

lemma attach_words_Nil: "attach_words [] rs = rs"
  by (simp add: attach_words_def)

lemma find_alternatives_result:
  assumes found: "find_alternatives L rd rf d clat n_best results word_level = Inr out"
    and new: "new = map (make_alternative L rd (model d))
                 (ConvertNbestToVector L (ShortestPath L (ConvertLattice L clat) n_best))"
  shows "if new = [] then out = results
         else if \<not> (enable_word_level (options d) \<and> word_level) then out = results @ new
         else \<exists>wb ok aligned_clat. wb_info d = Some wb \<and>
                align_lattice L (model d) wb clat = (ok, aligned_clat) \<and>
                (if \<not> ok then out = results @ new
                 else \<exists>ws. compute_words L rf (model d) (acoustic_scale d)
                              (frame_subsampling_factor d) aligned_clat = Inr ws \<and>
                            out = attach_words ws (results @ new) \<and>
                            (results \<noteq> [] \<longrightarrow> out = attach_words ws results @ new))"
proof (cases "new = []")
  case True
  with found new show ?thesis by (simp add: find_alternatives_def)
next
  case False
  note paths = this
  show ?thesis
  proof (cases "enable_word_level (options d) \<and> word_level")
    case False
    with found new paths show ?thesis by (simp add: find_alternatives_def Let_def)
  next
    case True
    note gate = this
    from found new paths gate obtain wb where wb: "wb_info d = Some wb"
      by (cases "wb_info d") (simp_all add: find_alternatives_def Let_def)
    obtain ok aligned_clat where al: "align_lattice L (model d) wb clat = (ok, aligned_clat)"
      by (cases "align_lattice L (model d) wb clat")
    show ?thesis
    proof (cases ok)
      case False
      with found new paths gate wb al have "out = results @ new"
        by (simp add: find_alternatives_def Let_def attach_words_Nil)
      with paths gate wb al False show ?thesis by auto
    next
      case True
      with found new paths gate wb al obtain ws where
        ws: "compute_words L rf (model d) (acoustic_scale d) (frame_subsampling_factor d)
               aligned_clat = Inr ws"
        and out: "out = attach_words ws (results @ new)"
        by (cases "compute_words L rf (model d) (acoustic_scale d)
                     (frame_subsampling_factor d) aligned_clat")
           (simp_all add: find_alternatives_def Let_def)
      from out have "results \<noteq> [] \<longrightarrow> out = attach_words ws results @ new"
        by (simp add: attach_words_append)
      with paths gate wb al True ws out show ?thesis by auto
    qed
  qed
qed

lemma get_decoded_results_run:
  assumes "get_decoded_results K L rd rf d n_best results word_level bidi_streaming =
             Inr (d', out)"
  shows "\<exists>dec. decoder d' = Some dec \<and>
           (if NumFramesDecoded K dec = 0 then out = results
            else \<exists>clat. GetLattice K dec = Inr clat \<and>
                   find_alternatives L rd rf d' clat n_best results word_level = Inr out)"
  using assms
  by (cases bidi_streaming)
     (auto simp: get_decoded_results_def split: option.splits if_splits sum.splits)

text \<open>
  C10. \<^verbatim>\<open>get_decoded_results\<close> does not clear the caller's vector. Whenever it returns:
  with no frame decoded, or no n-best path, the vector is as it was; otherwise the new
  alternatives, one per n-best path and in their order, are appended behind the entries
  that were there; and when word-level output is enabled and requested and the
  alignment is usable, the words computed from the aligned lattice are attached at
  index 0 of the whole vector, which is the first entry that was already there when the
  vector was not empty on entry (the new alternatives then follow unchanged).
\<close>

theorem get_decoded_results_appends:
  assumes "get_decoded_results K L rd rf d n_best results word_level bidi_streaming =
             Inr (d', out)"
  shows "\<exists>dec. decoder d' = Some dec \<and>
     (if NumFramesDecoded K dec = 0 then out = results
      else \<exists>clat new. GetLattice K dec = Inr clat \<and>
         new = map (make_alternative L rd (model d))
                 (ConvertNbestToVector L (ShortestPath L (ConvertLattice L clat) n_best)) \<and>
         (if new = [] then out = results
          else if \<not> (enable_word_level (options d) \<and> word_level) then out = results @ new
          else \<exists>wb ok aligned_clat. wb_info d = Some wb \<and>
                 align_lattice L (model d) wb clat = (ok, aligned_clat) \<and>
                 (if \<not> ok then out = results @ new
                  else \<exists>ws. compute_words L rf (model d) (acoustic_scale d)
                               (frame_subsampling_factor d) aligned_clat = Inr ws \<and>
                             out = attach_words ws (results @ new) \<and>
                             (results \<noteq> [] \<longrightarrow> out = attach_words ws results @ new))))"
proof -
  from same_resources_get_decoded_results [OF assms]
  have same: "model d' = model d" "options d' = options d" "wb_info d' = wb_info d"
    "acoustic_scale d' = acoustic_scale d"
    "frame_subsampling_factor d' = frame_subsampling_factor d"
    by (simp_all add: same_resources_def)
  from get_decoded_results_run [OF assms] obtain dec where dec: "decoder d' = Some dec"
    and run: "if NumFramesDecoded K dec = 0 then out = results
            else \<exists>clat. GetLattice K dec = Inr clat \<and>
                   find_alternatives L rd rf d' clat n_best results word_level = Inr out"
    by blast
  show ?thesis
  proof (cases "NumFramesDecoded K dec = 0")
    case True
    with dec run show ?thesis by simp
  next
    case False
    with run obtain clat where lat: "GetLattice K dec = Inr clat"
      and found: "find_alternatives L rd rf d' clat n_best results word_level = Inr out"
      by auto
    note inner = find_alternatives_result [OF found refl, unfolded same]
    show ?thesis
      apply (rule exI [of _ dec])
      apply (simp only: dec False if_False simp_thms)
      apply (rule exI [of _ clat])
      apply (rule exI)
      apply (intro conjI)
        apply (rule lat)
       apply (rule refl)
      apply (rule inner)
      done
  qed
qed

lemma toy_get_decoded_results:
  "get_decoded_results toy_stream toy_lattice exact exact toy_decoded 1 [toy_previous] True False =
     Inr (toy_finalized, [toy_previous\<lparr>words := toy_words\<rparr>, toy_alternative])"
  by (simp add: get_decoded_results_def extraction_defs toy_defs upt_rec)

lemma toy_compute_words: "compute_words toy_lattice exact toy_symbols (Fin 1) 3 3 = Inr toy_words"
  by (simp add: extraction_defs toy_defs upt_rec)

theorem get_decoded_results_appends_witness:
  "get_decoded_results toy_stream toy_lattice exact exact toy_decoded 1 [toy_previous] True False =
     Inr (toy_finalized, [toy_previous\<lparr>words := toy_words\<rparr>, toy_alternative]) \<and>
   compute_words toy_lattice exact toy_symbols (Fin 1) 3 3 = Inr toy_words \<and>
   [toy_previous\<lparr>words := toy_words\<rparr>, toy_alternative] =
     attach_words toy_words [toy_previous] @ [toy_alternative]"
proof -
  have "[toy_previous\<lparr>words := toy_words\<rparr>, toy_alternative] =
     attach_words toy_words [toy_previous] @ [toy_alternative]"
    by (simp add: attach_words_def toy_words_def)
  with get_decoded_results_appends [OF toy_get_decoded_results] toy_get_decoded_results
    toy_compute_words
  show ?thesis by blast
qed

section \<open>Properties of the chunked decoding\<close>

lemma split_chunks_Nil: "split_chunks n [] = []"
  by (simp add: split_chunks.simps)

lemma split_chunks_whole:
  assumes "xs \<noteq> []" "length xs \<le> n"
  shows "split_chunks n xs = [xs]"
proof -
  from assms have "0 < n" by (cases xs) auto
  with assms show ?thesis
    by (subst split_chunks.simps) (simp add: split_chunks_Nil)
qed

lemma split_chunks_step:
  "0 < n \<Longrightarrow> xs \<noteq> [] \<Longrightarrow> split_chunks n xs = take n xs # split_chunks n (drop n xs)"
  by (subst split_chunks.simps) simp

lemma feed_chunks_step:
  assumes "0 < n" "xs \<noteq> []"
  shows "feed_chunks K samp_freq (split_chunks n xs) d delta_weights =
        (case decode_wave K d (take n xs) delta_weights samp_freq of
           Inl e \<Rightarrow> Inl e
         | Inr (d', dw') \<Rightarrow> feed_chunks K samp_freq (split_chunks n (drop n xs)) d' dw')"
  by (simp add: split_chunks_step [OF assms])


text \<open>
  What \<open>split_chunks\<close> cuts: the chunks put together are the buffer, no chunk is empty
  or longer than \<open>n\<close>, and every chunk but the last has \<open>n\<close> samples.
\<close>

lemma concat_split_chunks: "0 < n \<Longrightarrow> concat (split_chunks n xs) = xs"
proof (induction n xs rule: split_chunks.induct)
  case (1 n xs)
  show ?case
  proof (cases "xs = []")
    case True
    then show ?thesis by (simp add: split_chunks_Nil)
  next
    case False
    have "split_chunks n xs = take n xs # split_chunks n (drop n xs)"
      using 1(2) False by (rule split_chunks_step)
    moreover have "concat (split_chunks n (drop n xs)) = drop n xs"
      using 1 False by simp
    ultimately show ?thesis by simp
  qed
qed

lemma length_split_chunks:
  "0 < n \<Longrightarrow> c \<in> set (split_chunks n xs) \<Longrightarrow> 0 < length c \<and> length c \<le> n"
proof (induction n xs arbitrary: c rule: split_chunks.induct)
  case (1 n xs)
  show ?case
  proof (cases "xs = []")
    case True
    with 1(3) show ?thesis by (simp add: split_chunks_Nil)
  next
    case False
    have "split_chunks n xs = take n xs # split_chunks n (drop n xs)"
      using 1(2) False by (rule split_chunks_step)
    with 1(3) have "c = take n xs \<or> c \<in> set (split_chunks n (drop n xs))" by simp
    then show ?thesis
    proof
      assume "c = take n xs"
      with False 1(2) show ?thesis by simp
    next
      assume "c \<in> set (split_chunks n (drop n xs))"
      with 1(1) [of c] 1(2) False show ?thesis by simp
    qed
  qed
qed

lemma full_split_chunks:
  "0 < n \<Longrightarrow> Suc i < length (split_chunks n xs) \<Longrightarrow> length (split_chunks n xs ! i) = n"
proof (induction n xs arbitrary: i rule: split_chunks.induct)
  case (1 n xs)
  show ?case
  proof (cases "xs = []")
    case True
    with 1(3) show ?thesis by (simp add: split_chunks_Nil)
  next
    case False
    have eq: "split_chunks n xs = take n xs # split_chunks n (drop n xs)"
      using 1(2) False by (rule split_chunks_step)
    show ?thesis
    proof (cases i)
      case 0
      with 1(3) have "split_chunks n (drop n xs) \<noteq> []" unfolding eq by simp
      then have "drop n xs \<noteq> []" by (auto simp: split_chunks_Nil)
      then show ?thesis unfolding eq 0 by simp
    next
      case (Suc j)
      with 1(3) have "Suc j < length (split_chunks n (drop n xs))" unfolding eq by simp
      with 1(1) [of j] 1(2) False show ?thesis unfolding eq Suc by simp
    qed
  qed
qed

lemma decode_chunks_step:
  assumes "samp_offset < int (length data)" "0 \<le> samp_offset" "0 < chunk_length"
  defines "num_samp \<equiv> min chunk_length (int (length data) - samp_offset)"
  shows "decode_chunks K samp_freq chunk_length data samp_offset d delta_weights =
        (case decode_wave K d (take (nat num_samp) (drop (nat samp_offset) data))
                delta_weights samp_freq of
           Inl e \<Rightarrow> Inl e
         | Inr (d', dw') \<Rightarrow>
             decode_chunks K samp_freq chunk_length data (samp_offset + num_samp) d' dw')"
proof -
  have eq: "(if chunk_length < int (length data) - samp_offset then chunk_length
        else int (length data) - samp_offset) = num_samp"
    by (simp add: num_samp_def min_def)
  have pos: "0 < num_samp" using assms(1,3) by (simp add: num_samp_def)
  show ?thesis
    apply (subst decode_chunks.simps)
    apply (simp only: Let_def eq)
    using pos assms(1,2)
    apply (simp split: sum.splits prod.splits)
    done
qed

lemma decode_chunks_feed:
  "0 < chunk_length \<Longrightarrow> 0 \<le> samp_offset \<Longrightarrow>
   decode_chunks K samp_freq chunk_length data samp_offset d delta_weights =
     feed_chunks K samp_freq (split_chunks (nat chunk_length) (drop (nat samp_offset) data))
       d delta_weights"
proof (induction K samp_freq chunk_length data samp_offset d delta_weights
       rule: decode_chunks.induct)
  case (1 K samp_freq chunk_length data samp_offset d delta_weights)
  let ?rem = "int (length data) - samp_offset"
  let ?n = "if chunk_length < ?rem then chunk_length else ?rem"
  let ?part = "take (nat ?n) (drop (nat samp_offset) data)"
  show ?case
  proof (cases "samp_offset < int (length data)")
    case False
    then have "drop (nat samp_offset) data = []" by simp
    with False show ?thesis
      by (subst decode_chunks.simps) (simp add: split_chunks_Nil)
  next
    case True
    have n_min: "?n = min chunk_length ?rem" by (simp add: min_def)
    have pos: "0 < ?n" using True 1(2) by (simp split: if_splits)
    then have guard: "\<not> (?n < 0 \<or> samp_offset < 0)" and nz: "?n \<noteq> 0"
      and nonneg: "0 \<le> samp_offset + ?n"
      using 1(3) by linarith+
    have ne: "drop (nat samp_offset) data \<noteq> []" using True 1(3) by simp
    have tk: "?part = take (nat chunk_length) (drop (nat samp_offset) data)"
      using True 1(3) by (simp split: if_splits)
    have dr: "drop (nat chunk_length) (drop (nat samp_offset) data) =
              drop (nat (samp_offset + ?n)) data"
      using True 1(2,3) by (simp add: nat_add_distrib add.commute split: if_splits)
    have step: "decode_chunks K samp_freq chunk_length data samp_offset d delta_weights =
        (case decode_wave K d ?part delta_weights samp_freq of
           Inl e \<Rightarrow> Inl e
         | Inr (d', dw') \<Rightarrow>
             decode_chunks K samp_freq chunk_length data (samp_offset + ?n) d' dw')"
      unfolding n_min by (rule decode_chunks_step [OF True 1(3) 1(2)])
    have feed: "feed_chunks K samp_freq
          (split_chunks (nat chunk_length) (drop (nat samp_offset) data)) d delta_weights =
        (case decode_wave K d ?part delta_weights samp_freq of
           Inl e \<Rightarrow> Inl e
         | Inr (d', dw') \<Rightarrow>
             feed_chunks K samp_freq
               (split_chunks (nat chunk_length) (drop (nat (samp_offset + ?n)) data)) d' dw')"
      unfolding tk dr [symmetric]
      by (rule feed_chunks_step [OF _ ne]) (use 1(2) in simp)
    show ?thesis
    proof (cases "decode_wave K d ?part delta_weights samp_freq")
      case (Inl e)
      show ?thesis unfolding step feed Inl by simp
    next
      case (Inr r)
      obtain d' dw' where r: "(d', dw') = r" by (cases r) simp
      have "decode_chunks K samp_freq chunk_length data (samp_offset + ?n) d' dw' =
          feed_chunks K samp_freq
            (split_chunks (nat chunk_length) (drop (nat (samp_offset + ?n)) data)) d' dw'"
        by (rule 1(1) [OF True refl refl guard Inr r nz 1(2) nonneg])
      then show ?thesis unfolding step feed Inr r [symmetric] by simp
    qed
  qed
qed

lemma floor_max: "0 \<le> (k::int) \<Longrightarrow> (if k = 0 then 1 else k) = max 1 k"
  by (simp add: max_def)

lemma chunk_length_of_positive:
  assumes "fp_less (Fin 0) chunk_size" "fp_mul rf samp_freq chunk_size = Fin p" "0 \<le> p"
    "p < 2 ^ 31"
  shows "chunk_length_of rf samp_freq chunk_size = Inr (max 1 \<lfloor>p\<rfloor>)"
proof -
  have lt: "\<lfloor>p\<rfloor> < 2 ^ 31" using assms(4) by (simp add: floor_less_iff)
  have ge: "0 \<le> \<lfloor>p\<rfloor>" using assms(3) by simp
  have lo: "- (2 ^ 31) \<le> \<lfloor>p\<rfloor>" by (rule order_trans [OF _ ge]) simp
  have "int32_of_fp (Fin p) = Inr \<lfloor>p\<rfloor>"
    unfolding int32_of_fp_def Let_def using lt lo assms(3) by (simp del: zero_le_floor floor_less_iff)
  then show ?thesis
    using assms(1,2) floor_max [OF ge] by (simp add: chunk_length_of_def)
qed

lemma chunk_length_of_nonpositive:
  "\<not> fp_less (Fin 0) chunk_size \<Longrightarrow> chunk_length_of rf samp_freq chunk_size = Inr INT32_MAX"
  by (simp add: chunk_length_of_def)

lemma decode_chunks_from_start:
  "0 < chunk_length \<Longrightarrow>
   decode_chunks K samp_freq chunk_length data 0 d [] =
     feed_chunks K samp_freq (split_chunks (nat chunk_length) data) d []"
  using decode_chunks_feed [of chunk_length 0 K samp_freq data d "[]"] by simp


text \<open>
  C4, as amended. For every audio buffer and every positive \<^verbatim>\<open>chunk_size\<close> whose product
  with the sample rate, computed in \<^verbatim>\<open>float\<close>, is a number \<open>p\<close> with \<open>0 \<le> p < 2^31\<close>,
  both non-streaming entry points cut the buffer into consecutive chunks of \<open>p\<close>
  truncated samples (1 sample when that is 0) and feed the chunks one after the other
  through the per-chunk decode step; when \<^verbatim>\<open>chunk_size\<close> is not positive, the entire
  buffer is fed as one chunk. (The buffer is not empty there, and its length is an
  \<^verbatim>\<open>int32\<close>: \<^verbatim>\<open>read_raw_wav_stream\<close> and the engine's wave reader throw on audio
  without data, before the loop.)
\<close>

theorem chunked_decoding:
  "(fp_less (Fin 0) chunk_size \<and> fp_mul rf samp_freq chunk_size = Fin p \<and> 0 \<le> p \<and> p < 2 ^ 31 \<longrightarrow>
      decode_wav_audio K rf d (samp_freq, data) chunk_size =
        feed_all K samp_freq (split_chunks (nat (max 1 \<lfloor>p\<rfloor>)) data) d \<and>
      decode_raw_wav_audio K rf d data samp_freq chunk_size =
        feed_all K samp_freq (split_chunks (nat (max 1 \<lfloor>p\<rfloor>)) data) d) \<and>
   (\<not> fp_less (Fin 0) chunk_size \<and> data \<noteq> [] \<and> length data < 2 ^ 31 \<longrightarrow>
      decode_wav_audio K rf d (samp_freq, data) chunk_size = feed_all K samp_freq [data] d \<and>
      decode_raw_wav_audio K rf d data samp_freq chunk_size = feed_all K samp_freq [data] d)"
proof (intro conjI impI)
  assume a: "fp_less (Fin 0) chunk_size \<and> fp_mul rf samp_freq chunk_size = Fin p \<and> 0 \<le> p \<and>
             p < 2 ^ 31"
  then have len: "chunk_length_of rf samp_freq chunk_size = Inr (max 1 \<lfloor>p\<rfloor>)"
    by (simp add: chunk_length_of_positive)
  have pos: "0 < max 1 \<lfloor>p\<rfloor>" by simp
  show "decode_wav_audio K rf d (samp_freq, data) chunk_size =
        feed_all K samp_freq (split_chunks (nat (max 1 \<lfloor>p\<rfloor>)) data) d"
    by (simp add: decode_wav_audio_def feed_all_def len decode_chunks_from_start [OF pos]
          del: max.bounded_iff)
  show "decode_raw_wav_audio K rf d data samp_freq chunk_size =
        feed_all K samp_freq (split_chunks (nat (max 1 \<lfloor>p\<rfloor>)) data) d"
    by (simp add: decode_raw_wav_audio_def feed_all_def len decode_chunks_from_start [OF pos])
next
  assume a: "\<not> fp_less (Fin 0) chunk_size \<and> data \<noteq> [] \<and> length data < 2 ^ 31"
  then have len: "chunk_length_of rf samp_freq chunk_size = Inr INT32_MAX"
    by (simp add: chunk_length_of_nonpositive)
  have pos: "0 < INT32_MAX" by (simp add: INT32_MAX_def)
  from a have "length data \<le> nat INT32_MAX" by (simp add: INT32_MAX_def)
  with a have whole: "split_chunks (nat INT32_MAX) data = [data]"
    by (simp add: split_chunks_whole)
  show "decode_wav_audio K rf d (samp_freq, data) chunk_size = feed_all K samp_freq [data] d"
    by (simp add: decode_wav_audio_def feed_all_def len decode_chunks_from_start [OF pos] whole)
  show "decode_raw_wav_audio K rf d data samp_freq chunk_size = feed_all K samp_freq [data] d"
    by (simp add: decode_raw_wav_audio_def feed_all_def len decode_chunks_from_start [OF pos]
          whole)
qed


lemma toy_split: "split_chunks 2 [a, b, c] = [[a, b], [c]]"
proof -
  have "split_chunks 2 [a, b, c] = take 2 [a, b, c] # split_chunks 2 (drop 2 [a, b, c])"
    by (rule split_chunks_step) simp_all
  also have "split_chunks 2 (drop 2 [a, b, c]) = take 2 [c] # split_chunks 2 (drop 2 [c])"
    by (simp add: split_chunks_step)
  finally show ?thesis by (simp add: split_chunks_Nil)
qed

lemma toy_feed_two:
  "feed_all toy_stream (Fin 16000) [[Fin 1, Fin 2], [Fin 3]] toy_started =
     Inr (toy_decoded\<lparr>silence_weighting := 2\<rparr>)"
  by (simp add: feed_all_def decode_wave_def toy_defs)

lemma toy_feed_one:
  "feed_all toy_stream (Fin 16000) [[Fin 1, Fin 2, Fin 3]] toy_started = Inr toy_decoded"
  by (simp add: feed_all_def decode_wave_def toy_defs)

theorem chunked_decoding_witness:
  "decode_wav_audio toy_stream exact toy_started (Fin 16000, [Fin 1, Fin 2, Fin 3])
       (Fin (1 / 8000)) = Inr (toy_decoded\<lparr>silence_weighting := 2\<rparr>) \<and>
   decode_raw_wav_audio toy_stream exact toy_started [Fin 1, Fin 2, Fin 3] (Fin 16000) (Fin 0) =
     Inr toy_decoded"
proof -
  have "decode_wav_audio toy_stream exact toy_started (Fin 16000, [Fin 1, Fin 2, Fin 3])
       (Fin (1 / 8000)) = Inr (toy_decoded\<lparr>silence_weighting := 2\<rparr>)"
    using chunked_decoding [where chunk_size = "Fin (1 / 8000)" and rf = exact
        and samp_freq = "Fin 16000" and p = 2 and K = toy_stream and d = toy_started
        and data = "[Fin 1, Fin 2, Fin 3]"]
    by (simp add: exact_def toy_split toy_feed_two)
  moreover
  have "decode_raw_wav_audio toy_stream exact toy_started [Fin 1, Fin 2, Fin 3] (Fin 16000)
       (Fin 0) = Inr toy_decoded"
    using chunked_decoding [where chunk_size = "Fin 0" and rf = exact
        and samp_freq = "Fin 16000" and K = toy_stream and d = toy_started
        and data = "[Fin 1, Fin 2, Fin 3]"]
    by (simp add: toy_feed_one)
  ultimately show ?thesis by simp
qed


text \<open>
  The chunk length is an \<^verbatim>\<open>int32\<close>: at 16000 samples per second a chunk of 200000
  seconds has 3200000000 samples, the conversion of that number is undefined, and
  nothing is fed.
\<close>

theorem chunked_decoding_counterexample:
  "decode_wav_audio toy_stream exact toy_started (Fin 16000, [Fin 1, Fin 2, Fin 3])
     (Fin 200000) = Inl UndefinedConversion"
  by (simp add: decode_wav_audio_def chunk_length_of_def int32_of_fp_def exact_def)


section \<open>Properties of a session\<close>

lemma start_decoding_fields:
  "start_decoding K d u =
     d\<lparr>decoder := Some (NewDecoder K (model d)
           (SetAdaptationState K (adaptation_state d) (NewFeaturePipeline K (model d)))),
       feature_pipeline :=
         Some (SetAdaptationState K (adaptation_state d) (NewFeaturePipeline K (model d))),
       uuid := u\<rparr>"
  by (simp add: start_decoding_def free_decoder_def Let_def)


lemma start_decoding_same_resources:
  assumes "same_resources d d'"
  shows "start_decoding K d' new_uuid =
           (start_decoding K d new_uuid)\<lparr>silence_weighting := silence_weighting d'\<rparr>"
  using assms
  by (cases d, cases d') (simp add: start_decoding_fields same_resources_def)

text \<open>
  C5, as amended. \<^verbatim>\<open>start_decoding\<close> discards the members the class holds per
  utterance, the feature pipeline and the search state (and replaces the uuid): its
  result does not depend on them, the new pipeline is a fresh one whose adaptation state
  is set from the decoder's \<^verbatim>\<open>adaptation_state_\<close>, and the new search state is built over
  it. The members the class holds per decoder are kept. The silence-weighting state is
  not reset: it stays as the chunks of the earlier utterances left it, so a decoder
  started again is the decoder it was before those utterances, started, but for the
  silence-weighting state. \<^verbatim>\<open>adaptation_state_\<close> is assigned by no method: after any
  sequence of calls it is the one the constructor made, not updated by the utterances,
  and the model, the options and the word-boundary information are unchanged.
\<close>

theorem start_decoding_resets:
  "start_decoding K (d\<lparr>decoder := old_dec, feature_pipeline := old_pipe, uuid := old_uuid\<rparr>) new_uuid =
     start_decoding K d new_uuid \<and>
   start_decoding K d new_uuid =
     d\<lparr>decoder := Some (NewDecoder K (model d)
           (SetAdaptationState K (adaptation_state d) (NewFeaturePipeline K (model d)))),
       feature_pipeline :=
         Some (SetAdaptationState K (adaptation_state d) (NewFeaturePipeline K (model d))),
       uuid := new_uuid\<rparr> \<and>
   silence_weighting (start_decoding K d new_uuid) = silence_weighting d \<and>
   (call_sequence K L rd rf d calls = Inr d' \<longrightarrow>
      adaptation_state d' = adaptation_state d \<and> model d' = model d \<and>
      options d' = options d \<and> wb_info d' = wb_info d \<and>
      start_decoding K d' new_uuid =
        (start_decoding K d new_uuid)\<lparr>silence_weighting := silence_weighting d'\<rparr>) \<and>
   adaptation_state (Decoder_new K loaded wb_file ac_scale subsampling) =
     NewAdaptationState K loaded \<and>
   silence_weighting (Decoder_new K loaded wb_file ac_scale subsampling) =
     NewSilenceWeighting K loaded"
proof (intro conjI impI)
  show "start_decoding K (d\<lparr>decoder := old_dec, feature_pipeline := old_pipe, uuid := old_uuid\<rparr>)
          new_uuid = start_decoding K d new_uuid"
    by (simp add: start_decoding_fields)
  show "start_decoding K d new_uuid =
     d\<lparr>decoder := Some (NewDecoder K (model d)
           (SetAdaptationState K (adaptation_state d) (NewFeaturePipeline K (model d)))),
       feature_pipeline :=
         Some (SetAdaptationState K (adaptation_state d) (NewFeaturePipeline K (model d))),
       uuid := new_uuid\<rparr>"
    by (rule start_decoding_fields)
  show "silence_weighting (start_decoding K d new_uuid) = silence_weighting d"
    by (simp add: start_decoding_fields)
  show "adaptation_state (Decoder_new K loaded wb_file ac_scale subsampling) =
     NewAdaptationState K loaded"
    by (simp add: Decoder_new_def)
  show "silence_weighting (Decoder_new K loaded wb_file ac_scale subsampling) =
     NewSilenceWeighting K loaded"
    by (simp add: Decoder_new_def)
next
  assume "call_sequence K L rd rf d calls = Inr d'"
  then have same: "same_resources d d'" by (rule same_resources_call_sequence)
  then show "adaptation_state d' = adaptation_state d" "model d' = model d"
    "options d' = options d" "wb_info d' = wb_info d"
    by (simp_all add: same_resources_def)
  from same show "start_decoding K d' new_uuid =
        (start_decoding K d new_uuid)\<lparr>silence_weighting := silence_weighting d'\<rparr>"
    by (rule start_decoding_same_resources)
qed

lemma toy_call_sequence_two:
  "call_sequence toy_stream toy_lattice exact exact toy_decoder toy_two_chunks =
     Inr (toy_finalized\<lparr>silence_weighting := 2\<rparr>)"
  by (simp add: toy_two_chunks_def decode_stream_raw_wav_chunk_def decode_wave_def
        get_decoded_results_def extraction_defs toy_defs upt_rec)

theorem start_decoding_resets_witness:
  "call_sequence toy_stream toy_lattice exact exact toy_decoder toy_two_chunks =
     Inr (toy_finalized\<lparr>silence_weighting := 2\<rparr>) \<and>
   adaptation_state (toy_finalized\<lparr>silence_weighting := 2\<rparr>) = adaptation_state toy_decoder \<and>
   model (toy_finalized\<lparr>silence_weighting := 2\<rparr>) = model toy_decoder \<and>
   start_decoding toy_stream (toy_finalized\<lparr>silence_weighting := 2\<rparr>) ''utt-2'' =
     (start_decoding toy_stream toy_decoder ''utt-2'')\<lparr>silence_weighting := 2\<rparr>"
  using start_decoding_resets [where K = toy_stream and L = toy_lattice and rd = exact
      and rf = exact and d = toy_decoder and calls = toy_two_chunks
      and d' = "toy_finalized\<lparr>silence_weighting := 2\<rparr>"
      and new_uuid = "''utt-2''" and old_dec = None and old_pipe = None and old_uuid = "[]"
      and loaded = toy_symbols and wb_file = "Some ()" and ac_scale = "Fin 1"
      and subsampling = 3] toy_call_sequence_two
  by simp

text \<open>
  An utterance in two chunks moves the adaptation state of its pipeline (from 0 to 3)
  and the silence-weighting state (from 0 to 2). The decoder's own adaptation state is
  not updated from the pipeline, and the pipeline of the next utterance starts from the
  constructor's state again; the silence-weighting state is not discarded by the next
  \<^verbatim>\<open>start_decoding\<close>, where a newly constructed decoder has the state 0.
\<close>

theorem start_decoding_adaptation_counterexample:
  "call_sequence toy_stream toy_lattice exact exact toy_decoder toy_two_chunks =
     Inr (toy_finalized\<lparr>silence_weighting := 2\<rparr>) \<and>
   feature_pipeline (toy_finalized\<lparr>silence_weighting := 2\<rparr>) =
     Some \<lparr>pipe_adapt = 3, pipe_frames = 3, pipe_finished = True\<rparr> \<and>
   adaptation_state (toy_finalized\<lparr>silence_weighting := 2\<rparr>) = 0 \<and>
   feature_pipeline (start_decoding toy_stream (toy_finalized\<lparr>silence_weighting := 2\<rparr>)
       ''utt-2'') =
     Some \<lparr>pipe_adapt = 0, pipe_frames = 0, pipe_finished = False\<rparr> \<and>
   silence_weighting (start_decoding toy_stream (toy_finalized\<lparr>silence_weighting := 2\<rparr>)
       ''utt-2'') = 2 \<and>
   silence_weighting (start_decoding toy_stream
       (Decoder_new toy_stream toy_symbols (Some ()) (Fin 1) 3) ''utt-2'') = 0"
  using toy_call_sequence_two by (simp add: toy_defs)





end
